theory Spec2Isabelle
  imports Main "HOL-Library.Word"
begin

section \<open>The LicenseManager contract (smart_contracts/LicenseManager.sol)\<close>

text \<open>
  Solidity's \<open>uint256\<close> and \<open>address\<close> are 256-bit and 160-bit words. The contract is
  compiled with \<open>pragma solidity ^0.8.0\<close>, so \<open>+\<close>, \<open>+=\<close> and \<open>++\<close> are checked: an
  overflow reverts the transaction with a panic instead of wrapping around.
\<close>

type_synonym uint256 = "256 word"
type_synonym address = "160 word"

datatype LicenseType = OpenSource | Research | Commercial | Enterprise

datatype AccessLevel = ReadOnly | InferenceOnly | FineTuning | FullAccess

text \<open>\<open>uint(level)\<close>: the position of an enum member in its declaration.\<close>

fun uint_AccessLevel :: "AccessLevel \<Rightarrow> nat" where
  "uint_AccessLevel ReadOnly = 0"
| "uint_AccessLevel InferenceOnly = 1"
| "uint_AccessLevel FineTuning = 2"
| "uint_AccessLevel FullAccess = 3"

record License =
  modelId :: uint256
  licensee :: address
  licenseType :: LicenseType
  accessLevel :: AccessLevel
  issuedAt :: uint256
  expiresAt :: uint256
  isActive :: bool
  usageLimit :: uint256
  usageCount :: uint256

text \<open>
  A storage slot that was never written reads as zero in every field: the value
  \<open>licenses[licenseId]\<close> has for an id that was never issued.
\<close>

definition zero_License :: License where
  "zero_License =
     \<lparr>modelId = 0, licensee = 0, licenseType = OpenSource, accessLevel = ReadOnly,
      issuedAt = 0, expiresAt = 0, isActive = False, usageLimit = 0, usageCount = 0\<rparr>"

datatype event =
    LicenseIssued uint256 uint256 address
  | LicenseRevoked uint256
  | LicenseUsed uint256 uint256
  | LicenseExpired uint256
  | LicenseRenewed uint256 uint256

text \<open>
  The contract's storage. \<open>LICENSE_ADMIN\<close> and \<open>DEFAULT_ADMIN_ROLE\<close> are the role
  memberships \<open>hasRole\<close> reads (inherited from AccessControl); \<open>events\<close> is the log the
  \<open>emit\<close> statements append to.
\<close>

record LicenseManager =
  licenses :: "uint256 \<Rightarrow> License"
  licenseCounter :: uint256
  modelLicenses :: "uint256 \<Rightarrow> uint256 list"
  userLicenses :: "address \<Rightarrow> uint256 list"
  LICENSE_ADMIN :: "address \<Rightarrow> bool"
  DEFAULT_ADMIN_ROLE :: "address \<Rightarrow> bool"
  events :: "event list"

text \<open>
  A transaction that fails reverts: it returns the reason and leaves the storage as it
  was. \<open>Revert msg\<close> is a failed \<open>require\<close> with its message, \<open>Panic_overflow\<close> the
  checked-arithmetic panic, \<open>Registry_revert\<close> a revert inside the call to the
  ModelRegistry.
\<close>

datatype revert = Revert string | Panic_overflow | Registry_revert

definition checked_add :: "uint256 \<Rightarrow> uint256 \<Rightarrow> revert + uint256" where
  "checked_add a b = (if unat a + unat b < 2 ^ 256 then Inr (a + b) else Inl Panic_overflow)"

text \<open>
  \<open>modelRegistry.ownerOf\<close> is a call into another contract (an ERC721 token of the
  OpenZeppelin library, which is not part of this repository). Every operation takes the
  registry's answer as the parameter \<open>ownerOf\<close>: \<open>Some a\<close> when the token has owner
  \<open>a\<close>, \<open>None\<close> when the call reverts (a token that does not exist). \<open>sender\<close> is
  \<open>msg.sender\<close> and \<open>now\<close> is \<open>block.timestamp\<close>.
\<close>

type_synonym registry = "uint256 \<Rightarrow> address option"

text \<open>
  The constructor: it refuses the zero registry address and gives the deployer both
  roles; \<open>fresh deployer\<close> is the storage it leaves. The registry's address itself is
  kept only to call \<open>ownerOf\<close>, which is the parameter above.
\<close>

definition fresh :: "address \<Rightarrow> LicenseManager" where
  "fresh deployer =
     \<lparr>licenses = (\<lambda>_. zero_License), licenseCounter = 0,
      modelLicenses = (\<lambda>_. []), userLicenses = (\<lambda>_. []),
      LICENSE_ADMIN = (\<lambda>a. a = deployer), DEFAULT_ADMIN_ROLE = (\<lambda>a. a = deployer),
      events = []\<rparr>"

definition constructor :: "address \<Rightarrow> address \<Rightarrow> revert + LicenseManager" where
  "constructor deployer modelRegistryAddress =
     (if modelRegistryAddress = 0 then Inl (Revert ''Invalid ModelRegistry address'')
      else Inr (fresh deployer))"

text \<open>
  \<open>issueLicense\<close> with its modifier \<open>onlyModelOwner\<close>. The test of the modifier, and of
  the inline checks in \<open>revokeLicense\<close> and \<open>renewLicense\<close>, is
  \<open>ownerOf(modelId) == msg.sender || hasRole(LICENSE_ADMIN, msg.sender)\<close>: the registry
  is called first, so its revert wins over the role check.
\<close>

definition issueLicense ::
  "registry \<Rightarrow> address \<Rightarrow> uint256 \<Rightarrow> uint256 \<Rightarrow> address \<Rightarrow> LicenseType \<Rightarrow> AccessLevel \<Rightarrow>
   uint256 \<Rightarrow> uint256 \<Rightarrow> LicenseManager \<Rightarrow> revert + (uint256 \<times> LicenseManager)" where
  "issueLicense ownerOf sender now mid lee ltype level duration limit s =
     (case ownerOf mid of
        None \<Rightarrow> Inl Registry_revert
      | Some owner \<Rightarrow>
          if \<not> (owner = sender \<or> LICENSE_ADMIN s sender)
          then Inl (Revert ''Caller is not the model owner or admin'')
          else if lee = 0 then Inl (Revert ''Invalid licensee address'')
          else if \<not> 0 < duration then Inl (Revert ''License duration must be greater than 0'')
          else
            (case checked_add (licenseCounter s) 1 of
               Inl e \<Rightarrow> Inl e
             | Inr licenseId \<Rightarrow>
                 (case checked_add now duration of
                    Inl e \<Rightarrow> Inl e
                  | Inr expiry \<Rightarrow>
                      Inr (licenseId,
                        s\<lparr>licenseCounter := licenseId,
                          licenses := (licenses s)(licenseId :=
                            \<lparr>modelId = mid, licensee = lee, licenseType = ltype,
                             accessLevel = level, issuedAt = now, expiresAt = expiry,
                             isActive = True, usageLimit = limit, usageCount = 0\<rparr>),
                          modelLicenses := (modelLicenses s)(mid := modelLicenses s mid @ [licenseId]),
                          userLicenses := (userLicenses s)(lee := userLicenses s lee @ [licenseId]),
                          events := events s @ [LicenseIssued licenseId mid lee]\<rparr>))))"

definition revokeLicense ::
  "registry \<Rightarrow> address \<Rightarrow> uint256 \<Rightarrow> LicenseManager \<Rightarrow> revert + LicenseManager" where
  "revokeLicense ownerOf sender licenseId s =
     (let license = licenses s licenseId in
      if \<not> isActive license then Inl (Revert ''License already inactive'')
      else
        (case ownerOf (modelId license) of
           None \<Rightarrow> Inl Registry_revert
         | Some owner \<Rightarrow>
             if \<not> (owner = sender \<or> LICENSE_ADMIN s sender)
             then Inl (Revert ''Not authorized to revoke this license'')
             else
               Inr (s\<lparr>licenses := (licenses s)(licenseId := license\<lparr>isActive := False\<rparr>),
                      events := events s @ [LicenseRevoked licenseId]\<rparr>)))"

definition recordUsage ::
  "address \<Rightarrow> uint256 \<Rightarrow> uint256 \<Rightarrow> uint256 \<Rightarrow> LicenseManager \<Rightarrow> revert + LicenseManager" where
  "recordUsage sender now licenseId usageAmount s =
     (if \<not> LICENSE_ADMIN s sender then Inl (Revert ''Only admin can record usage'')
      else
        let license = licenses s licenseId in
        if \<not> isActive license then Inl (Revert ''License not active'')
        else if \<not> now < expiresAt license then Inl (Revert ''License expired'')
        else
          (case checked_add (usageCount license) usageAmount of
             Inl e \<Rightarrow> Inl e
           | Inr count \<Rightarrow>
               if 0 < usageLimit license \<and> usageLimit license \<le> count
               then
                 Inr (s\<lparr>licenses := (licenses s)(licenseId :=
                            license\<lparr>usageCount := count, isActive := False\<rparr>),
                        events := events s @ [LicenseUsed licenseId count, LicenseExpired licenseId]\<rparr>)
               else
                 Inr (s\<lparr>licenses := (licenses s)(licenseId := license\<lparr>usageCount := count\<rparr>),
                        events := events s @ [LicenseUsed licenseId count]\<rparr>)))"

definition validateLicense ::
  "uint256 \<Rightarrow> uint256 \<Rightarrow> address \<Rightarrow> AccessLevel \<Rightarrow> LicenseManager \<Rightarrow> bool" where
  "validateLicense now licenseId user requiredAccess s =
     (let license = licenses s licenseId in
      isActive license \<and>
      licensee license = user \<and>
      now < expiresAt license \<and>
      (usageLimit license = 0 \<or> usageCount license < usageLimit license) \<and>
      uint_AccessLevel requiredAccess \<le> uint_AccessLevel (accessLevel license))"

definition renewLicense ::
  "registry \<Rightarrow> address \<Rightarrow> uint256 \<Rightarrow> uint256 \<Rightarrow> uint256 \<Rightarrow> LicenseManager \<Rightarrow>
   revert + LicenseManager" where
  "renewLicense ownerOf sender now licenseId additionalDuration s =
     (let license = licenses s licenseId in
      case ownerOf (modelId license) of
        None \<Rightarrow> Inl Registry_revert
      | Some owner \<Rightarrow>
          if \<not> (owner = sender \<or> licensee license = sender \<or> LICENSE_ADMIN s sender)
          then Inl (Revert ''Not authorized to renew this license'')
          else if \<not> 0 < additionalDuration
          then Inl (Revert ''Additional duration must be greater than 0'')
          else
            (case (if expiresAt license \<le> now then checked_add now additionalDuration
                   else checked_add (expiresAt license) additionalDuration) of
               Inl e \<Rightarrow> Inl e
             | Inr expiry \<Rightarrow>
                 let license1 = license\<lparr>expiresAt := expiry\<rparr>;
                     license2 =
                       (if \<not> isActive license1 \<and> usageCount license1 < usageLimit license1
                        then license1\<lparr>isActive := True\<rparr> else license1)
                 in Inr (s\<lparr>licenses := (licenses s)(licenseId := license2),
                           events := events s @ [LicenseRenewed licenseId (expiresAt license2)]\<rparr>)))"

definition getLicensesForModel :: "uint256 \<Rightarrow> LicenseManager \<Rightarrow> uint256 list" where
  "getLicensesForModel mid s = modelLicenses s mid"

definition getLicensesForUser :: "address \<Rightarrow> LicenseManager \<Rightarrow> uint256 list" where
  "getLicensesForUser user s = userLicenses s user"

text \<open>The loop of \<open>hasValidLicense\<close> over the user's license ids, as a recursion.\<close>

fun hasValidLicense_loop ::
  "uint256 \<Rightarrow> uint256 \<Rightarrow> address \<Rightarrow> AccessLevel \<Rightarrow> LicenseManager \<Rightarrow> uint256 list \<Rightarrow> bool" where
  "hasValidLicense_loop now mid user requiredAccess s [] = False"
| "hasValidLicense_loop now mid user requiredAccess s (i # ids) =
     (if modelId (licenses s i) = mid \<and> validateLicense now i user requiredAccess s then True
      else hasValidLicense_loop now mid user requiredAccess s ids)"

definition hasValidLicense ::
  "uint256 \<Rightarrow> uint256 \<Rightarrow> address \<Rightarrow> AccessLevel \<Rightarrow> LicenseManager \<Rightarrow> bool" where
  "hasValidLicense now mid user requiredAccess s =
     hasValidLicense_loop now mid user requiredAccess s (userLicenses s user)"

text \<open>
  \<open>onlyRole(DEFAULT_ADMIN_ROLE)\<close> is AccessControl's modifier; its revert message (which
  spells out the account and the role) is abbreviated.
\<close>

definition addLicenseAdmin :: "address \<Rightarrow> address \<Rightarrow> LicenseManager \<Rightarrow> revert + LicenseManager" where
  "addLicenseAdmin sender admin s =
     (if \<not> DEFAULT_ADMIN_ROLE s sender then Inl (Revert ''AccessControl: missing role'')
      else Inr (s\<lparr>LICENSE_ADMIN := (LICENSE_ADMIN s)(admin := True)\<rparr>))"

definition removeLicenseAdmin :: "address \<Rightarrow> address \<Rightarrow> LicenseManager \<Rightarrow> revert + LicenseManager" where
  "removeLicenseAdmin sender admin s =
     (if \<not> DEFAULT_ADMIN_ROLE s sender then Inl (Revert ''AccessControl: missing role'')
      else Inr (s\<lparr>LICENSE_ADMIN := (LICENSE_ADMIN s)(admin := False)\<rparr>))"

text \<open>
  One transaction: a call with its \<open>msg.sender\<close>, its \<open>block.timestamp\<close> and the
  registry as it stands when the call runs. A reverted transaction leaves the storage
  unchanged; the view functions return their value and change nothing.
\<close>

datatype call =
    IssueLicense uint256 address LicenseType AccessLevel uint256 uint256
  | RevokeLicense uint256
  | RecordUsage uint256 uint256
  | ValidateLicense uint256 address AccessLevel
  | RenewLicense uint256 uint256
  | GetLicensesForModel uint256
  | GetLicensesForUser address
  | HasValidLicense uint256 address AccessLevel
  | AddLicenseAdmin address
  | RemoveLicenseAdmin address

datatype outcome =
    Reverted revert
  | Done
  | Returned_id uint256
  | Returned_bool bool
  | Returned_ids "uint256 list"

definition commit :: "LicenseManager \<Rightarrow> revert + LicenseManager \<Rightarrow> outcome \<times> LicenseManager" where
  "commit s r = (case r of Inl e \<Rightarrow> (Reverted e, s) | Inr s' \<Rightarrow> (Done, s'))"

fun execute :: "registry \<Rightarrow> address \<Rightarrow> uint256 \<Rightarrow> call \<Rightarrow> LicenseManager \<Rightarrow> outcome \<times> LicenseManager" where
  "execute ownerOf sender now (IssueLicense mid lee ltype level duration limit) s =
     (case issueLicense ownerOf sender now mid lee ltype level duration limit s of
        Inl e \<Rightarrow> (Reverted e, s)
      | Inr (licenseId, s') \<Rightarrow> (Returned_id licenseId, s'))"
| "execute ownerOf sender now (RevokeLicense licenseId) s =
     commit s (revokeLicense ownerOf sender licenseId s)"
| "execute ownerOf sender now (RecordUsage licenseId usageAmount) s =
     commit s (recordUsage sender now licenseId usageAmount s)"
| "execute ownerOf sender now (ValidateLicense licenseId user requiredAccess) s =
     (Returned_bool (validateLicense now licenseId user requiredAccess s), s)"
| "execute ownerOf sender now (RenewLicense licenseId additionalDuration) s =
     commit s (renewLicense ownerOf sender now licenseId additionalDuration s)"
| "execute ownerOf sender now (GetLicensesForModel mid) s =
     (Returned_ids (getLicensesForModel mid s), s)"
| "execute ownerOf sender now (GetLicensesForUser user) s =
     (Returned_ids (getLicensesForUser user s), s)"
| "execute ownerOf sender now (HasValidLicense mid user requiredAccess) s =
     (Returned_bool (hasValidLicense now mid user requiredAccess s), s)"
| "execute ownerOf sender now (AddLicenseAdmin admin) s =
     commit s (addLicenseAdmin sender admin s)"
| "execute ownerOf sender now (RemoveLicenseAdmin admin) s =
     commit s (removeLicenseAdmin sender admin s)"

record transaction =
  tx_ownerOf :: registry
  tx_sender :: address
  tx_timestamp :: uint256
  tx_call :: call

definition apply_tx :: "transaction \<Rightarrow> LicenseManager \<Rightarrow> LicenseManager" where
  "apply_tx tx s = snd (execute (tx_ownerOf tx) (tx_sender tx) (tx_timestamp tx) (tx_call tx) s)"

text \<open>The storage after a sequence of transactions, the ledger's total order.\<close>

fun run :: "transaction list \<Rightarrow> LicenseManager \<Rightarrow> LicenseManager" where
  "run [] s = s"
| "run (tx # txs) s = run txs (apply_tx tx s)"

section \<open>The backend's License model and routes (models/License.js, routes/licenseRoutes.js)\<close>

text \<open>
  The backend mirrors the licenses in MongoDB. A \<open>Date\<close> is its number of milliseconds
  since the epoch and a \<open>Number\<close> that counts is an integer (both are exact below
  \<open>2^53\<close>, the range the model is about); an \<open>ObjectId\<close> is a key. The schema declares
  the two enums with the same members, in the same order, as the contract. The fields
  \<open>price\<close>, \<open>currency\<close>, \<open>paymentTransactionHash\<close>, \<open>termsAndConditions\<close> and
  \<open>customTerms\<close>, and Mongoose's \<open>createdAt\<close> and \<open>updatedAt\<close>, are left out: no method
  and no route below reads them, and only the issue route stores the request's values.
\<close>

type_synonym ObjectId = nat
type_synonym Date = int

record usage =
  timestamp :: Date
  operation :: string
  details :: string

record LicenseDoc =
  doc_id :: ObjectId
  doc_licenseId :: string
  doc_model :: ObjectId
  doc_licensee :: ObjectId
  doc_issuer :: ObjectId
  doc_licenseType :: LicenseType
  doc_accessLevel :: AccessLevel
  doc_issuedAt :: Date
  doc_expiresAt :: Date
  doc_isActive :: bool
  doc_usageLimit :: int
  doc_usageCount :: int
  doc_revocationReason :: "string option"
  doc_usageHistory :: "usage list"

subsection \<open>The schema's methods\<close>

text \<open>
  Each method takes the value \<open>new Date()\<close> gives it as \<open>now\<close>, and returns the document
  it would \<open>save()\<close>.

  A \<open>Date\<close> holds at most 8.64e15 milliseconds either side of the epoch: \<open>new Date(t)\<close>
  beyond that is an Invalid Date, which the schema's required \<open>Date\<close> paths refuse, so
  that \<open>save()\<close> rejects the document. The clock and every stored date are valid. From
  a valid date, the double arithmetic of \<open>getTime() + duration * 1000\<close> with an integer
  duration is exact whenever its exact result is in the range of a \<open>Date\<close> (the duration
  is below \<open>2^53\<close> then, the product is an even integer below \<open>2^54\<close> and the sum is
  below \<open>2^53\<close>), and it is out of that range whenever the exact result is (rounding is
  monotone, and the least sum beyond the range is computed exactly).
\<close>

definition valid_Date :: "Date \<Rightarrow> bool" where
  "valid_Date t = (- 8640000000000000 \<le> t \<and> t \<le> 8640000000000000)"

definition LicenseSchema_isValid :: "Date \<Rightarrow> LicenseDoc \<Rightarrow> bool" where
  "LicenseSchema_isValid now d =
     (if \<not> doc_isActive d then False
      else if doc_expiresAt d < now then False
      else if 0 < doc_usageLimit d \<and> doc_usageLimit d \<le> doc_usageCount d then False
      else True)"

definition LicenseSchema_recordUsage :: "Date \<Rightarrow> string \<Rightarrow> string \<Rightarrow> LicenseDoc \<Rightarrow> LicenseDoc" where
  "LicenseSchema_recordUsage now opn det d =
     (let d1 = d\<lparr>doc_usageHistory :=
                  doc_usageHistory d @ [\<lparr>timestamp = now, operation = opn, details = det\<rparr>]\<rparr>;
          d2 = d1\<lparr>doc_usageCount := doc_usageCount d1 + 1\<rparr>
      in if 0 < doc_usageLimit d2 \<and> doc_usageLimit d2 \<le> doc_usageCount d2
         then d2\<lparr>doc_isActive := False\<rparr> else d2)"

text \<open>
  \<open>renew\<close> ends in \<open>return this.save()\<close>: the result is the document saved, or \<open>None\<close>
  when the new \<open>expiresAt\<close> is an Invalid Date and \<open>save()\<close> rejects (an Invalid Date
  compares false and adds to an Invalid Date, so an invalid stored date gives one too).
\<close>

definition LicenseSchema_renew :: "Date \<Rightarrow> int \<Rightarrow> LicenseDoc \<Rightarrow> LicenseDoc option" where
  "LicenseSchema_renew now duration d =
     (let d1 = (if doc_expiresAt d < now then d\<lparr>doc_expiresAt := now + duration * 1000\<rparr>
                else d\<lparr>doc_expiresAt := doc_expiresAt d + duration * 1000\<rparr>);
          d2 = (if \<not> doc_isActive d1 \<and> doc_usageCount d1 < doc_usageLimit d1
                then d1\<lparr>doc_isActive := True\<rparr> else d1)
      in if valid_Date (doc_expiresAt d) \<and> valid_Date (doc_expiresAt d2) then Some d2 else None)"

definition LicenseSchema_revoke :: "string \<Rightarrow> LicenseDoc \<Rightarrow> LicenseDoc" where
  "LicenseSchema_revoke reason d = d\<lparr>doc_isActive := False, doc_revocationReason := Some reason\<rparr>"

subsection \<open>The collections\<close>

text \<open>
  The License collection is the list of its documents. Of a Model only its \<open>owner\<close> is
  read, and of a User only whether it exists. \<open>save\<close> of a document that was read from
  the collection replaces the stored one with the same \<open>_id\<close> (and stores nothing when
  there is none, which no route reaches); \<open>insert_doc\<close> is the first
  \<open>save\<close> of a new document, which the unique indexes on \<open>_id\<close> and \<open>licenseId\<close> refuse
  when the key is taken.
\<close>

record db =
  License_docs :: "LicenseDoc list"
  Model_owner :: "ObjectId \<Rightarrow> ObjectId option"
  User_exists :: "ObjectId \<Rightarrow> bool"

definition findById :: "ObjectId \<Rightarrow> LicenseDoc list \<Rightarrow> LicenseDoc option" where
  "findById i docs = find (\<lambda>d. doc_id d = i) docs"

definition findOne_licenseId :: "string \<Rightarrow> LicenseDoc list \<Rightarrow> LicenseDoc option" where
  "findOne_licenseId l docs = find (\<lambda>d. doc_licenseId d = l) docs"

fun save :: "LicenseDoc \<Rightarrow> LicenseDoc list \<Rightarrow> LicenseDoc list" where
  "save d [] = []"
| "save d (x # xs) = (if doc_id x = doc_id d then d # xs else x # save d xs)"

definition insert_doc :: "LicenseDoc \<Rightarrow> LicenseDoc list \<Rightarrow> LicenseDoc list option" where
  "insert_doc d docs =
     (if findById (doc_id d) docs = None \<and> findOne_licenseId (doc_licenseId d) docs = None
      then Some (docs @ [d]) else None)"

subsection \<open>The routes\<close>

text \<open>
  \<open>req.user\<close> is the authenticated user (\<open>None\<close> when the middleware found none). A
  handler returns its response and the database it leaves. The validators that only
  check the shape of a field whose type already fixes it (\<open>isIn\<close> on the enums,
  \<open>isISO8601\<close>) have no branch here.
\<close>

record user =
  user_id :: ObjectId
  role :: string

datatype response =
    Status401
  | Status400_errors
  | Status400 string
  | Status403 string
  | Status404 string
  | Status500
  | Status201 LicenseDoc
  | Status200 LicenseDoc
  | Status200_isValid_false string
  | Status200_isValid_true LicenseDoc

text \<open>
  \<open>POST /api/licenses\<close>. \<open>new_id\<close> and \<open>licenseId\<close> are the generated keys. A rejected
  \<open>save()\<close> (an Invalid Date as \<open>expiresAt\<close>, or a key that is taken) is caught and
  answered 500.
\<close>

definition route_issue ::
  "user option \<Rightarrow> ObjectId \<Rightarrow> ObjectId \<Rightarrow> LicenseType \<Rightarrow> AccessLevel \<Rightarrow> Date \<Rightarrow> int option \<Rightarrow>
   Date \<Rightarrow> ObjectId \<Rightarrow> string \<Rightarrow> db \<Rightarrow> response \<times> db" where
  "route_issue req_user mid licenseeId ltype level expiry limit now new_id licenseId db =
     (case req_user of
        None \<Rightarrow> (Status401, db)
      | Some u \<Rightarrow>
          (case Model_owner db mid of
             None \<Rightarrow> (Status404 ''Model not found'', db)
           | Some owner \<Rightarrow>
               if owner \<noteq> user_id u \<and> role u \<noteq> ''admin''
               then (Status403 ''Not authorized to issue license for this model'', db)
               else if \<not> User_exists db licenseeId then (Status404 ''Licensee not found'', db)
               else
                 let license =
                   \<lparr>doc_id = new_id, doc_licenseId = licenseId, doc_model = mid,
                    doc_licensee = licenseeId, doc_issuer = user_id u, doc_licenseType = ltype,
                    doc_accessLevel = level, doc_issuedAt = now, doc_expiresAt = expiry,
                    doc_isActive = True,
                    doc_usageLimit = (case limit of None \<Rightarrow> 0 | Some n \<Rightarrow> n),
                    doc_usageCount = 0, doc_revocationReason = None, doc_usageHistory = []\<rparr>
                 in if \<not> valid_Date expiry then (Status500, db)
                    else
                      (case insert_doc license (License_docs db) of
                         None \<Rightarrow> (Status500, db)
                       | Some docs \<Rightarrow> (Status201 license, db\<lparr>License_docs := docs\<rparr>))))"

text \<open>\<open>PUT /api/licenses/:id/revoke\<close>.\<close>

definition route_revoke :: "user option \<Rightarrow> ObjectId \<Rightarrow> string \<Rightarrow> db \<Rightarrow> response \<times> db" where
  "route_revoke req_user i reason db =
     (case req_user of
        None \<Rightarrow> (Status401, db)
      | Some u \<Rightarrow>
          if reason = [] then (Status400_errors, db)
          else
            (case findById i (License_docs db) of
               None \<Rightarrow> (Status404 ''License not found'', db)
             | Some license \<Rightarrow>
                 (case Model_owner db (doc_model license) of
                    None \<Rightarrow> (Status404 ''Model not found'', db)
                  | Some owner \<Rightarrow>
                      if role u \<noteq> ''admin'' \<and> doc_issuer license \<noteq> user_id u \<and> owner \<noteq> user_id u
                      then (Status403 ''Not authorized to revoke this license'', db)
                      else
                        let license' = LicenseSchema_revoke reason license
                        in (Status200 license',
                            db\<lparr>License_docs := save license' (License_docs db)\<rparr>))))"

text \<open>\<open>PUT /api/licenses/:id/renew\<close>. A rejected \<open>save()\<close> is caught and answered 500.\<close>

definition route_renew :: "user option \<Rightarrow> ObjectId \<Rightarrow> int \<Rightarrow> Date \<Rightarrow> db \<Rightarrow> response \<times> db" where
  "route_renew req_user i duration now db =
     (case req_user of
        None \<Rightarrow> (Status401, db)
      | Some u \<Rightarrow>
          if duration < 1 then (Status400_errors, db)
          else
            (case findById i (License_docs db) of
               None \<Rightarrow> (Status404 ''License not found'', db)
             | Some license \<Rightarrow>
                 (case Model_owner db (doc_model license) of
                    None \<Rightarrow> (Status404 ''Model not found'', db)
                  | Some owner \<Rightarrow>
                      if role u \<noteq> ''admin'' \<and> doc_licensee license \<noteq> user_id u \<and>
                         doc_issuer license \<noteq> user_id u \<and> owner \<noteq> user_id u
                      then (Status403 ''Not authorized to renew this license'', db)
                      else
                        (case LicenseSchema_renew now duration license of
                           None \<Rightarrow> (Status500, db)
                         | Some license' \<Rightarrow>
                             (Status200 license',
                              db\<lparr>License_docs := save license' (License_docs db)\<rparr>)))))"

text \<open>
  \<open>PUT /api/licenses/:id/usage\<close>. The clock is read twice: \<open>now\<close> in \<open>isValid()\<close> and
  \<open>now'\<close> for the history entry.
\<close>

definition route_usage ::
  "user option \<Rightarrow> ObjectId \<Rightarrow> string \<Rightarrow> string \<Rightarrow> Date \<Rightarrow> Date \<Rightarrow> db \<Rightarrow> response \<times> db" where
  "route_usage req_user i opn det now now' db =
     (case req_user of
        None \<Rightarrow> (Status401, db)
      | Some u \<Rightarrow>
          if opn = [] then (Status400_errors, db)
          else
            (case findById i (License_docs db) of
               None \<Rightarrow> (Status404 ''License not found'', db)
             | Some license \<Rightarrow>
                 if role u \<noteq> ''admin'' \<and> doc_licensee license \<noteq> user_id u
                 then (Status403 ''Not authorized to record usage for this license'', db)
                 else if \<not> LicenseSchema_isValid now license
                 then (Status400 ''License is not valid'', db)
                 else
                   let license' = LicenseSchema_recordUsage now' opn det license
                   in (Status200 license',
                       db\<lparr>License_docs := save license' (License_docs db)\<rparr>)))"

text \<open>
  \<open>GET /api/licenses/validate/:licenseId\<close>. \<open>accessLevels.indexOf\<close> is the position in
  the array the handler declares.
\<close>

definition accessLevels :: "AccessLevel list" where
  "accessLevels = [ReadOnly, InferenceOnly, FineTuning, FullAccess]"

fun indexOf :: "'a list \<Rightarrow> 'a \<Rightarrow> int" where
  "indexOf [] a = -1"
| "indexOf (x # xs) a = (if x = a then 0 else let k = indexOf xs a in if k < 0 then -1 else k + 1)"

definition route_validate ::
  "user option \<Rightarrow> string \<Rightarrow> AccessLevel \<Rightarrow> Date \<Rightarrow> db \<Rightarrow> response \<times> db" where
  "route_validate req_user licenseId requiredLevel now db =
     (case req_user of
        None \<Rightarrow> (Status401, db)
      | Some u \<Rightarrow>
          (case findOne_licenseId licenseId (License_docs db) of
             None \<Rightarrow> (Status200_isValid_false ''License not found'', db)
           | Some license \<Rightarrow>
               if \<not> LicenseSchema_isValid now license
               then (Status200_isValid_false ''License is not valid'', db)
               else if doc_licensee license \<noteq> user_id u
               then (Status200_isValid_false ''User is not the licensee'', db)
               else if indexOf accessLevels (doc_accessLevel license) < indexOf accessLevels requiredLevel
               then (Status200_isValid_false ''Insufficient access level'', db)
               else (Status200_isValid_true license, db)))"

text \<open>A request to one of the five routes, and the database after a sequence of them.\<close>

datatype request =
    Issue "user option" ObjectId ObjectId LicenseType AccessLevel Date "int option" Date ObjectId string
  | Revoke "user option" ObjectId string
  | Renew "user option" ObjectId int Date
  | Usage "user option" ObjectId string string Date Date
  | Validate "user option" string AccessLevel Date

fun handle :: "request \<Rightarrow> db \<Rightarrow> response \<times> db" where
  "handle (Issue u mid lee ltype level expiry limit now new_id licenseId) db =
     route_issue u mid lee ltype level expiry limit now new_id licenseId db"
| "handle (Revoke u i reason) db = route_revoke u i reason db"
| "handle (Renew u i duration now) db = route_renew u i duration now db"
| "handle (Usage u i opn det now now') db = route_usage u i opn det now now' db"
| "handle (Validate u licenseId level now) db = route_validate u licenseId level now db"

fun serve :: "request list \<Rightarrow> db \<Rightarrow> db" where
  "serve [] db = db"
| "serve (r # rs) db = serve rs (snd (handle r db))"

section \<open>Auxiliary notions and example inputs\<close>

text \<open>
  The contract has no test for "this license exists": an id is that of an issued license
  when it lies between 1 and the counter. \<open>unissued_blank\<close> is the invariant that every
  other slot is inactive and has no usage and no limit.
\<close>

definition issued :: "LicenseManager \<Rightarrow> uint256 \<Rightarrow> bool" where
  "issued s i = (0 < i \<and> i \<le> licenseCounter s)"

definition unissued_blank :: "LicenseManager \<Rightarrow> bool" where
  "unissued_blank s =
     (\<forall>i. \<not> issued s i \<longrightarrow>
        \<not> isActive (licenses s i) \<and> usageCount (licenses s i) = 0 \<and> usageLimit (licenses s i) = 0)"

text \<open>
  Example inputs. On chain, address 1 deploys the contract (and so is the license
  admin), model 1 belongs to address 2, and no other model exists. In the backend, user
  1 is the admin, user 2 owns model 10, and user 3 holds the one stored license, which
  is unlimited and expires at time 5000.
\<close>

definition example_registry :: registry where
  "example_registry = (\<lambda>m. if m = 1 then Some 2 else None)"

definition example_tx :: "address \<Rightarrow> uint256 \<Rightarrow> call \<Rightarrow> transaction" where
  "example_tx caller now c =
     \<lparr>tx_ownerOf = example_registry, tx_sender = caller, tx_timestamp = now, tx_call = c\<rparr>"

definition example_doc :: LicenseDoc where
  "example_doc =
     \<lparr>doc_id = 1, doc_licenseId = ''LIC-1000-7'', doc_model = 10, doc_licensee = 3,
      doc_issuer = 2, doc_licenseType = Commercial, doc_accessLevel = InferenceOnly,
      doc_issuedAt = 1000, doc_expiresAt = 5000, doc_isActive = True, doc_usageLimit = 0,
      doc_usageCount = 0, doc_revocationReason = None, doc_usageHistory = []\<rparr>"

definition example_db :: db where
  "example_db =
     \<lparr>License_docs = [example_doc],
      Model_owner = (\<lambda>m. if m = 10 then Some 2 else None),
      User_exists = (\<lambda>u. 1 \<le> u \<and> u \<le> 4)\<rparr>"

definition admin_user :: user where
  "admin_user = \<lparr>user_id = 1, role = ''admin''\<rparr>"

definition owner_user :: user where
  "owner_user = \<lparr>user_id = 2, role = ''user''\<rparr>"

definition licensee_user :: user where
  "licensee_user = \<lparr>user_id = 3, role = ''user''\<rparr>"

definition other_user :: user where
  "other_user = \<lparr>user_id = 4, role = ''user''\<rparr>"

section \<open>The contract: checked arithmetic and what a successful call did\<close>

lemma checked_add_Inr:
  assumes "checked_add a b = Inr c"
  shows "c = a + b" and "unat c = unat a + unat b"
proof -
  from assms have lt: "unat a + unat b < 2 ^ 256" and c: "c = a + b"
    unfolding checked_add_def by (simp_all split: if_splits)
  have "unat a + unat b < 2 ^ LENGTH(256)"
    using lt by simp
  then have "unat (a + b) = unat a + unat b"
    by (simp only: unat_add_lem)
  with c show "unat c = unat a + unat b" by simp
  show "c = a + b" by (rule c)
qed

lemma checked_add_le:
  assumes "checked_add a b = Inr c"
  shows "a \<le> c"
  using checked_add_Inr(2)[OF assms] by (simp add: word_le_nat_alt)

lemma checked_add_Suc_less:
  assumes "checked_add a 1 = Inr c"
  shows "a < c"
  using checked_add_Inr(2)[OF assms] by (simp add: word_less_nat_alt)

lemma issueLicense_Inr:
  assumes "issueLicense ownerOf sender now mid lee ltype level duration limit s = Inr (i, s')"
  shows "checked_add (licenseCounter s) 1 = Inr i"
    and "licenseCounter s' = i"
    and "licenses s' = (licenses s)(i :=
           \<lparr>modelId = mid, licensee = lee, licenseType = ltype, accessLevel = level,
            issuedAt = now, expiresAt = now + duration, isActive = True,
            usageLimit = limit, usageCount = 0\<rparr>)"
  using assms
  by (auto simp: issueLicense_def split: option.splits if_splits sum.splits dest: checked_add_Inr(1))

lemma issueLicense_roles:
  "issueLicense ownerOf sender now mid lee ltype level duration limit s = Inr (i, s') \<Longrightarrow>
   LICENSE_ADMIN s' = LICENSE_ADMIN s"
  by (auto simp: issueLicense_def split: option.splits if_splits sum.splits)

lemma revokeLicense_Inr:
  assumes "revokeLicense ownerOf sender i s = Inr s'"
  shows "s' = s\<lparr>licenses := (licenses s)(i := (licenses s i)\<lparr>isActive := False\<rparr>),
                events := events s @ [LicenseRevoked i]\<rparr>"
    and "isActive (licenses s i)"
  using assms
  by (auto simp: revokeLicense_def Let_def split: option.splits if_splits)

lemma recordUsage_Inr:
  assumes "recordUsage sender now i amount s = Inr s'"
  shows "LICENSE_ADMIN s sender" and "isActive (licenses s i)" and "now < expiresAt (licenses s i)"
    and "checked_add (usageCount (licenses s i)) amount = Inr (usageCount (licenses s' i))"
    and "licenseCounter s' = licenseCounter s"
    and "\<exists>L. licenses s' = (licenses s)(i := L) \<and>
           isActive L = (\<not> (0 < usageLimit L \<and> usageLimit L \<le> usageCount L)) \<and>
           usageLimit L = usageLimit (licenses s i) \<and> expiresAt L = expiresAt (licenses s i)"
  using assms
  by (auto simp: recordUsage_def Let_def split: if_splits sum.splits)

lemma renewLicense_Inr:
  assumes "renewLicense ownerOf sender now i dur s = Inr s'"
  shows "licenseCounter s' = licenseCounter s"
    and "\<exists>L. licenses s' = (licenses s)(i := L) \<and>
           isActive L = (isActive (licenses s i) \<or> usageCount (licenses s i) < usageLimit (licenses s i)) \<and>
           usageCount L = usageCount (licenses s i) \<and> usageLimit L = usageLimit (licenses s i)"
  using assms
  by (auto simp: renewLicense_def Let_def split: option.splits if_splits sum.splits)

lemma recordUsage_step:
  assumes "LICENSE_ADMIN s a" "isActive (licenses s i)" "now < expiresAt (licenses s i)"
    and "unat (usageCount (licenses s i)) + unat amount < 2 ^ 256"
  shows "\<exists>s'. recordUsage a now i amount s = Inr s' \<and> LICENSE_ADMIN s' = LICENSE_ADMIN s \<and>
     unat (usageCount (licenses s' i)) = unat (usageCount (licenses s i)) + unat amount \<and>
     usageLimit (licenses s' i) = usageLimit (licenses s i) \<and>
     expiresAt (licenses s' i) = expiresAt (licenses s i) \<and>
     isActive (licenses s' i) =
       (\<not> (0 < unat (usageLimit (licenses s i)) \<and>
            unat (usageLimit (licenses s i)) \<le> unat (usageCount (licenses s i)) + unat amount))"
proof -
  have "unat (usageCount (licenses s i)) + unat amount < 2 ^ LENGTH(256)"
    using assms(4) by simp
  then have u: "unat (usageCount (licenses s i) + amount) = unat (usageCount (licenses s i)) + unat amount"
    by (simp only: unat_add_lem)
  have z: "(0 < usageLimit (licenses s i)) = (0 < unat (usageLimit (licenses s i)))"
    by (simp add: word_less_nat_alt)
  have "(usageLimit (licenses s i) \<le> usageCount (licenses s i) + amount) =
        (unat (usageLimit (licenses s i)) \<le> unat (usageCount (licenses s i)) + unat amount)"
    by (simp add: word_le_nat_alt u)
  with z u show ?thesis
    using assms by (simp add: recordUsage_def checked_add_def Let_def)
qed

lemma recordUsage_not_active:
  "LICENSE_ADMIN s a \<Longrightarrow> \<not> isActive (licenses s i) \<Longrightarrow>
   recordUsage a now i amount s = Inl (Revert ''License not active'')"
  by (simp add: recordUsage_def Let_def)

lemma recordUsage_expired:
  "LICENSE_ADMIN s a \<Longrightarrow> isActive (licenses s i) \<Longrightarrow> expiresAt (licenses s i) \<le> now \<Longrightarrow>
   recordUsage a now i amount s = Inl (Revert ''License expired'')"
  by (simp add: recordUsage_def Let_def linorder_not_less)

section \<open>The contract: slots that were never issued stay blank\<close>

lemma unissued_blank_fresh: "unissued_blank (fresh deployer)"
  by (simp add: unissued_blank_def fresh_def zero_License_def)

lemma issued_issue:
  assumes "checked_add (licenseCounter s) 1 = Inr i" "licenseCounter s' = i"
  shows "issued s' j \<longleftrightarrow> issued s j \<or> j = i" and "\<not> issued s i"
proof -
  from checked_add_Inr(2)[OF assms(1)] have u: "unat i = unat (licenseCounter s) + 1"
    by simp
  show "issued s' j \<longleftrightarrow> issued s j \<or> j = i"
    using u assms(2) by (auto simp: issued_def word_less_nat_alt word_le_nat_alt word_unat_eq_iff)
  show "\<not> issued s i"
    using u by (auto simp: issued_def word_less_nat_alt word_le_nat_alt)
qed

lemma unissued_blank_issueLicense:
  assumes "unissued_blank s"
    and "issueLicense ownerOf sender now mid lee ltype level duration limit s = Inr (i, s')"
  shows "unissued_blank s'"
  using assms(1) issueLicense_Inr[OF assms(2)] issued_issue[OF issueLicense_Inr(1,2)[OF assms(2)]]
  by (auto simp: unissued_blank_def)

lemma unissued_blank_update_issued:
  assumes "unissued_blank s" and "issued s i"
    and "licenseCounter s' = licenseCounter s" and "licenses s' = (licenses s)(i := L)"
  shows "unissued_blank s'"
  unfolding unissued_blank_def
proof (intro allI impI)
  fix j
  assume "\<not> issued s' j"
  then have n: "\<not> issued s j"
    using assms(3) by (simp add: issued_def)
  with assms(2) have "j \<noteq> i" by auto
  then show "\<not> isActive (licenses s' j) \<and> usageCount (licenses s' j) = 0 \<and>
        usageLimit (licenses s' j) = 0"
    using n assms(1,4) by (simp add: unissued_blank_def)
qed

lemma active_issued: "unissued_blank s \<Longrightarrow> isActive (licenses s i) \<Longrightarrow> issued s i"
  by (auto simp: unissued_blank_def)

lemma unissued_blank_revokeLicense:
  assumes "unissued_blank s" and "revokeLicense ownerOf sender i s = Inr s'"
  shows "unissued_blank s'"
proof (rule unissued_blank_update_issued[OF assms(1)])
  show "issued s i"
    using assms(1) revokeLicense_Inr(2)[OF assms(2)] by (rule active_issued)
  show "licenseCounter s' = licenseCounter s"
    using revokeLicense_Inr(1)[OF assms(2)] by simp
  show "licenses s' = (licenses s)(i := (licenses s i)\<lparr>isActive := False\<rparr>)"
    using revokeLicense_Inr(1)[OF assms(2)] by simp
qed

lemma unissued_blank_recordUsage:
  assumes "unissued_blank s" and "recordUsage sender now i amount s = Inr s'"
  shows "unissued_blank s'"
proof -
  obtain L where L: "licenses s' = (licenses s)(i := L)"
    using recordUsage_Inr(6)[OF assms(2)] by blast
  show ?thesis
  proof (rule unissued_blank_update_issued[OF assms(1) _ _ L])
    show "issued s i"
      using assms(1) recordUsage_Inr(2)[OF assms(2)] by (rule active_issued)
    show "licenseCounter s' = licenseCounter s"
      using recordUsage_Inr(5)[OF assms(2)] .
  qed
qed

lemma unissued_blank_renewLicense:
  assumes "unissued_blank s" and "renewLicense ownerOf sender now i dur s = Inr s'"
  shows "unissued_blank s'"
proof -
  obtain L where L: "licenses s' = (licenses s)(i := L)"
      "isActive L = (isActive (licenses s i) \<or> usageCount (licenses s i) < usageLimit (licenses s i))"
      "usageCount L = usageCount (licenses s i)" "usageLimit L = usageLimit (licenses s i)"
    using renewLicense_Inr(2)[OF assms(2)] by blast
  have c: "licenseCounter s' = licenseCounter s"
    using renewLicense_Inr(1)[OF assms(2)] .
  show ?thesis
    unfolding unissued_blank_def
  proof (intro allI impI)
    fix j
    assume "\<not> issued s' j"
    then have "\<not> issued s j"
      using c by (simp add: issued_def)
    then have b: "\<not> isActive (licenses s j)" "usageCount (licenses s j) = 0"
        "usageLimit (licenses s j) = 0"
      using assms(1) by (simp_all add: unissued_blank_def)
    show "\<not> isActive (licenses s' j) \<and> usageCount (licenses s' j) = 0 \<and>
          usageLimit (licenses s' j) = 0"
      using b L by (cases "j = i") simp_all
  qed
qed

lemma unissued_blank_roles:
  "unissued_blank (s\<lparr>LICENSE_ADMIN := f\<rparr>) = unissued_blank s"
  by (simp add: unissued_blank_def issued_def)

lemma unissued_blank_apply_tx:
  assumes "unissued_blank s"
  shows "unissued_blank (apply_tx tx s)"
proof (cases "tx_call tx")
  case (IssueLicense mid lee ltype level duration limit)
  then show ?thesis
    using assms
    by (auto simp: apply_tx_def split: sum.splits dest: unissued_blank_issueLicense)
next
  case (RevokeLicense i)
  then show ?thesis
    using assms
    by (auto simp: apply_tx_def commit_def split: sum.splits dest: unissued_blank_revokeLicense)
next
  case (RecordUsage i amount)
  then show ?thesis
    using assms
    by (auto simp: apply_tx_def commit_def split: sum.splits dest: unissued_blank_recordUsage)
next
  case (RenewLicense i dur)
  then show ?thesis
    using assms
    by (auto simp: apply_tx_def commit_def split: sum.splits dest: unissued_blank_renewLicense)
next
  case (AddLicenseAdmin a)
  then show ?thesis
    using assms
    by (auto simp: apply_tx_def commit_def addLicenseAdmin_def unissued_blank_roles split: sum.splits if_splits)
next
  case (RemoveLicenseAdmin a)
  then show ?thesis
    using assms
    by (auto simp: apply_tx_def commit_def removeLicenseAdmin_def unissued_blank_roles split: sum.splits if_splits)
qed (use assms in \<open>simp_all add: apply_tx_def\<close>)

lemma run_append: "run (xs @ ys) s = run ys (run xs s)"
  by (induction xs arbitrary: s) simp_all

lemma unissued_blank_run: "unissued_blank s \<Longrightarrow> unissued_blank (run txs s)"
  by (induction txs arbitrary: s) (simp_all add: unissued_blank_apply_tx)

lemma validateLicense_iff_issued:
  assumes "unissued_blank s"
  shows "validateLicense now i user requiredAccess s \<longleftrightarrow>
     issued s i \<and> isActive (licenses s i) \<and> licensee (licenses s i) = user \<and>
     now < expiresAt (licenses s i) \<and>
     (usageLimit (licenses s i) = 0 \<or> usageCount (licenses s i) < usageLimit (licenses s i)) \<and>
     uint_AccessLevel requiredAccess \<le> uint_AccessLevel (accessLevel (licenses s i))"
  using active_issued[OF assms, of i] by (auto simp: validateLicense_def Let_def)

lemma validateLicense_expired:
  "expiresAt (licenses s i) \<le> now \<Longrightarrow> \<not> validateLicense now i user requiredAccess s"
  by (auto simp: validateLicense_def Let_def)

section \<open>Evaluating the examples\<close>

text \<open>The definitions a concrete call unfolds to, for the simplifier.\<close>

lemmas contract_defs = apply_tx_def commit_def issueLicense_def recordUsage_def revokeLicense_def
  renewLicense_def checked_add_def fresh_def example_registry_def example_tx_def Let_def

lemmas backend_defs = route_issue_def route_revoke_def route_renew_def route_usage_def
  route_validate_def LicenseSchema_isValid_def LicenseSchema_recordUsage_def
  LicenseSchema_renew_def LicenseSchema_revoke_def valid_Date_def findById_def
  findOne_licenseId_def
  insert_doc_def accessLevels_def example_db_def example_doc_def admin_user_def owner_user_def
  licensee_user_def other_user_def Let_def

section \<open>The backend: what the methods and the routes store\<close>

lemma findById_Some_id: "findById i docs = Some d \<Longrightarrow> doc_id d = i"
  by (auto simp: findById_def find_Some_iff)

lemma findById_save:
  "findById i (save d docs) =
     (if i = doc_id d then (case findById i docs of None \<Rightarrow> None | Some x \<Rightarrow> Some d)
      else findById i docs)"
  by (induction docs) (auto simp: findById_def)

lemma findById_append:
  "findById i (docs @ [x]) =
     (case findById i docs of None \<Rightarrow> (if doc_id x = i then Some x else None) | Some d \<Rightarrow> Some d)"
  by (induction docs) (simp_all add: findById_def)

lemma findById_save_updated:
  assumes "findById k docs = Some d0" and "doc_id d1 = doc_id d0"
    and "doc_usageCount d0 \<le> doc_usageCount d1" and "findById i docs = Some d"
  shows "\<exists>d'. findById i (save d1 docs) = Some d' \<and> doc_usageCount d \<le> doc_usageCount d'"
proof (cases "i = k")
  case True
  then have "d = d0"
    using assms(1,4) by simp
  moreover have "findById i (save d1 docs) = Some d1"
    using True assms(1,2) findById_Some_id[OF assms(1)] by (simp add: findById_save)
  ultimately show ?thesis
    using assms(3) by simp
next
  case False
  then have "findById i (save d1 docs) = Some d"
    using assms(2,4) findById_Some_id[OF assms(1)] by (simp add: findById_save)
  then show ?thesis by simp
qed

lemma LicenseSchema_recordUsage_count:
  "doc_usageCount (LicenseSchema_recordUsage now opn det d) = doc_usageCount d + 1 \<and>
   doc_id (LicenseSchema_recordUsage now opn det d) = doc_id d \<and>
   doc_usageLimit (LicenseSchema_recordUsage now opn det d) = doc_usageLimit d \<and>
   doc_isActive (LicenseSchema_recordUsage now opn det d) =
     (doc_isActive d \<and> \<not> (0 < doc_usageLimit d \<and> doc_usageLimit d \<le> doc_usageCount d + 1))"
  by (simp add: LicenseSchema_recordUsage_def Let_def)

lemma LicenseSchema_recordUsage_fields:
  "doc_licensee (LicenseSchema_recordUsage now opn det d) = doc_licensee d \<and>
   doc_expiresAt (LicenseSchema_recordUsage now opn det d) = doc_expiresAt d"
  by (simp add: LicenseSchema_recordUsage_def Let_def)

lemma LicenseSchema_renew_Some:
  assumes "LicenseSchema_renew now dur d = Some d'"
  shows "doc_usageCount d' = doc_usageCount d" and "doc_id d' = doc_id d"
    and "doc_isActive d' = (doc_isActive d \<or> doc_usageCount d < doc_usageLimit d)"
    and "doc_expiresAt d' =
           (if doc_expiresAt d \<le> now then now + dur * 1000 else doc_expiresAt d + dur * 1000)"
  using assms by (auto simp: LicenseSchema_renew_def Let_def split: if_splits)

lemma LicenseSchema_renew_valid:
  assumes "valid_Date (doc_expiresAt d)"
    and "valid_Date (if doc_expiresAt d \<le> now then now + dur * 1000
                     else doc_expiresAt d + dur * 1000)"
  shows "\<exists>d'. LicenseSchema_renew now dur d = Some d'"
  using assms by (auto simp: LicenseSchema_renew_def Let_def split: if_splits)

lemma LicenseSchema_revoke_count:
  "doc_usageCount (LicenseSchema_revoke reason d) = doc_usageCount d \<and>
   doc_id (LicenseSchema_revoke reason d) = doc_id d"
  by (simp add: LicenseSchema_revoke_def)

lemma route_validate_no_mutation: "snd (route_validate req_user l r now db) = db"
  by (simp add: route_validate_def split: option.splits)

lemma route_revoke_db:
  "snd (route_revoke u k reason db) = db \<or>
   (\<exists>d0. findById k (License_docs db) = Some d0 \<and>
      snd (route_revoke u k reason db) =
        db\<lparr>License_docs := save (LicenseSchema_revoke reason d0) (License_docs db)\<rparr>)"
  by (auto simp: route_revoke_def Let_def split: option.splits)

lemma route_renew_db:
  "snd (route_renew u k dur now db) = db \<or>
   (\<exists>d0 d1. findById k (License_docs db) = Some d0 \<and> LicenseSchema_renew now dur d0 = Some d1 \<and>
      snd (route_renew u k dur now db) = db\<lparr>License_docs := save d1 (License_docs db)\<rparr>)"
  by (auto simp: route_renew_def Let_def split: option.splits)

lemma route_usage_db:
  "snd (route_usage u k opn det now now' db) = db \<or>
   (\<exists>d0. findById k (License_docs db) = Some d0 \<and> LicenseSchema_isValid now d0 \<and>
      snd (route_usage u k opn det now now' db) =
        db\<lparr>License_docs := save (LicenseSchema_recordUsage now' opn det d0) (License_docs db)\<rparr>)"
  by (auto simp: route_usage_def Let_def split: option.splits)

lemma route_issue_findById:
  "findById i (License_docs db) = Some d \<Longrightarrow>
   findById i (License_docs
     (snd (route_issue u mid lee ltype level expiry limit now new_id licenseId db))) = Some d"
  by (auto simp: route_issue_def insert_doc_def findById_append Let_def
      split: option.splits if_splits)

lemma handle_usageCount:
  assumes "findById i (License_docs db) = Some d"
  shows "\<exists>d'. findById i (License_docs (snd (handle r db))) = Some d' \<and>
           doc_usageCount d \<le> doc_usageCount d'"
proof (cases r)
  case (Issue u mid lee ltype level expiry limit now new_id licenseId)
  show ?thesis
    using route_issue_findById[OF assms] by (simp add: Issue)
next
  case (Revoke u k reason)
  show ?thesis
    using route_revoke_db[of u k reason db] assms
      findById_save_updated[of k "License_docs db" _ "LicenseSchema_revoke reason _" i d]
    by (auto simp: Revoke LicenseSchema_revoke_count)
next
  case (Renew u k dur now)
  from route_renew_db[of u k dur now db] show ?thesis
  proof
    assume "snd (route_renew u k dur now db) = db"
    then show ?thesis
      using assms by (simp add: Renew)
  next
    assume "\<exists>d0 d1. findById k (License_docs db) = Some d0 \<and>
        LicenseSchema_renew now dur d0 = Some d1 \<and>
        snd (route_renew u k dur now db) = db\<lparr>License_docs := save d1 (License_docs db)\<rparr>"
    then obtain d0 d1 where f: "findById k (License_docs db) = Some d0"
        and r: "LicenseSchema_renew now dur d0 = Some d1"
        and s: "snd (route_renew u k dur now db) = db\<lparr>License_docs := save d1 (License_docs db)\<rparr>"
      by blast
    have "\<exists>d'. findById i (save d1 (License_docs db)) = Some d' \<and>
        doc_usageCount d \<le> doc_usageCount d'"
      using f LicenseSchema_renew_Some(1,2)[OF r] assms
      by (intro findById_save_updated[of k _ d0]) simp_all
    then show ?thesis
      by (simp add: Renew s)
  qed
next
  case (Usage u k opn det now now')
  show ?thesis
    using route_usage_db[of u k opn det now now' db] assms
      findById_save_updated[of k "License_docs db" _ "LicenseSchema_recordUsage now' opn det _" i d]
    by (auto simp: Usage LicenseSchema_recordUsage_count)
next
  case (Validate u l level now)
  then show ?thesis
    using assms by (simp add: route_validate_no_mutation)
qed

lemma serve_usageCount:
  "findById i (License_docs db) = Some d \<Longrightarrow>
   \<exists>d'. findById i (License_docs (serve rs db)) = Some d' \<and>
        doc_usageCount d \<le> doc_usageCount d'"
proof (induction rs arbitrary: db d)
  case Nil
  then show ?case by simp
next
  case (Cons r rs)
  obtain d1 where d1: "findById i (License_docs (snd (handle r db))) = Some d1"
      "doc_usageCount d \<le> doc_usageCount d1"
    using handle_usageCount[OF Cons.prems] by blast
  obtain d2 where "findById i (License_docs (serve rs (snd (handle r db)))) = Some d2"
      "doc_usageCount d1 \<le> doc_usageCount d2"
    using Cons.IH[OF d1(1)] by blast
  with d1(2) show ?case by auto
qed

lemma serve_append: "serve (xs @ ys) db = serve ys (serve xs db)"
  by (induction xs arbitrary: db) simp_all

lemma route_issue_Status201:
  assumes "route_issue req_user mid lee ltype level expiry limit now new_id licenseId db0 =
             (Status201 d, db)"
  shows "findById new_id (License_docs db) = Some d" and "doc_isActive d"
    and "doc_usageCount d = 0" and "doc_usageLimit d = (case limit of None \<Rightarrow> 0 | Some n \<Rightarrow> n)"
    and "doc_expiresAt d = expiry" and "doc_licensee d = lee"
  using assms
  by (auto simp: route_issue_def insert_doc_def findById_append Let_def
      split: option.splits if_splits)

lemma route_usage_one:
  assumes "findById k (License_docs db) = Some d"
    and "role u = ''admin'' \<or> doc_licensee d = user_id u" and "opn \<noteq> []"
    and "doc_isActive d" and "now \<le> doc_expiresAt d"
    and "doc_usageCount d < doc_usageLimit d" and "0 < doc_usageLimit d"
  shows "\<exists>d' db'. route_usage (Some u) k opn det now now' db = (Status200 d', db') \<and>
           findById k (License_docs db') = Some d' \<and>
           doc_licensee d' = doc_licensee d \<and> doc_expiresAt d' = doc_expiresAt d \<and>
           doc_usageLimit d' = doc_usageLimit d \<and> doc_usageCount d' = doc_usageCount d + 1 \<and>
           doc_isActive d' = (doc_usageCount d + 1 < doc_usageLimit d)"
proof -
  let ?d = "LicenseSchema_recordUsage now' opn det d"
  have v: "LicenseSchema_isValid now d"
    using assms(4,5,6) by (simp add: LicenseSchema_isValid_def)
  have r: "route_usage (Some u) k opn det now now' db =
      (Status200 ?d, db\<lparr>License_docs := save ?d (License_docs db)\<rparr>)"
    using assms(1,2,3) v by (auto simp: route_usage_def Let_def)
  have i: "doc_id ?d = k"
    using findById_Some_id[OF assms(1)] by (simp add: LicenseSchema_recordUsage_count)
  have f: "findById k (save ?d (License_docs db)) = Some ?d"
    using assms(1) i by (simp add: findById_save)
  have a: "doc_isActive ?d = (doc_usageCount d + 1 < doc_usageLimit d)"
    using assms(4,6,7) by (auto simp: LicenseSchema_recordUsage_count)
  show ?thesis
    using r f a by (simp add: LicenseSchema_recordUsage_count LicenseSchema_recordUsage_fields)
qed

section \<open>Usage metering\<close>

text \<open>
  Claim C2. In the contract, a license issued with \<open>usageLimit = 5\<close> takes five
  recordings of one use each, made by a license admin at times before its expiry: all
  five succeed, the license is still active after the fourth and inactive after the
  fifth, and a sixth recording reverts with "License not active"; and a successful
  \<open>recordUsage\<close> that leaves \<open>usageCount\<close> at or above a positive \<open>usageLimit\<close> leaves the
  license inactive. In the backend, a license the issue route stored with
  \<open>usageLimit = 5\<close> takes five uses through the usage route, asked by an admin or the
  licensee at times up to its expiry: all five are answered 200, the stored document
  is active after the fourth and inactive with \<open>usageCount = 5\<close> after the fifth, and a
  sixth is answered 400 (the route's one rejection, "License is not valid") and
  stores nothing; and \<open>recordUsage\<close> leaves a document whose \<open>usageCount\<close> is at or above
  a positive \<open>usageLimit\<close> inactive.
\<close>

theorem five_uses_exhaust_the_license:
  assumes issue: "issueLicense ownerOf sender t0 mid lee ltype level duration 5 s = Inr (i, s0)"
    and admin: "LICENSE_ADMIN s a"
    and t: "t1 < expiresAt (licenses s0 i)" "t2 < expiresAt (licenses s0 i)"
      "t3 < expiresAt (licenses s0 i)" "t4 < expiresAt (licenses s0 i)"
      "t5 < expiresAt (licenses s0 i)"
    and b_issue: "route_issue req_user mid' lee' ltype' level' expiry (Some 5) now0 new_id licenseId db0
        = (Status201 d0, db)"
    and b_auth: "role u = ''admin'' \<or> lee' = user_id u"
    and b_opn: "opn \<noteq> []"
    and n: "n1 \<le> expiry" "n2 \<le> expiry" "n3 \<le> expiry" "n4 \<le> expiry" "n5 \<le> expiry"
  shows "(\<exists>s1 s2 s3 s4 s5.
      recordUsage a t1 i 1 s0 = Inr s1 \<and> recordUsage a t2 i 1 s1 = Inr s2 \<and>
      recordUsage a t3 i 1 s2 = Inr s3 \<and> recordUsage a t4 i 1 s3 = Inr s4 \<and>
      recordUsage a t5 i 1 s4 = Inr s5 \<and>
      isActive (licenses s4 i) \<and> \<not> isActive (licenses s5 i) \<and> unat (usageCount (licenses s5 i)) = 5 \<and>
      recordUsage a t6 i 1 s5 = Inl (Revert ''License not active'')) \<and>
    (\<forall>c now j amount q q'.
       recordUsage c now j amount q = Inr q' \<and> 0 < usageLimit (licenses q' j) \<and>
       usageLimit (licenses q' j) \<le> usageCount (licenses q' j) \<longrightarrow> \<not> isActive (licenses q' j)) \<and>
    (\<exists>d1 d2 d3 d4 d5 db1 db2 db3 db4 db5.
      route_usage (Some u) new_id opn det n1 m1 db = (Status200 d1, db1) \<and>
      route_usage (Some u) new_id opn det n2 m2 db1 = (Status200 d2, db2) \<and>
      route_usage (Some u) new_id opn det n3 m3 db2 = (Status200 d3, db3) \<and>
      route_usage (Some u) new_id opn det n4 m4 db3 = (Status200 d4, db4) \<and>
      route_usage (Some u) new_id opn det n5 m5 db4 = (Status200 d5, db5) \<and>
      doc_isActive d4 \<and> \<not> doc_isActive d5 \<and> doc_usageCount d5 = 5 \<and>
      findById new_id (License_docs db5) = Some d5 \<and>
      route_usage (Some u) new_id opn det n6 m6 db5 = (Status400 ''License is not valid'', db5)) \<and>
    (\<forall>now opn' det' e.
       0 < doc_usageLimit (LicenseSchema_recordUsage now opn' det' e) \<and>
       doc_usageLimit (LicenseSchema_recordUsage now opn' det' e)
         \<le> doc_usageCount (LicenseSchema_recordUsage now opn' det' e)
       \<longrightarrow> \<not> doc_isActive (LicenseSchema_recordUsage now opn' det' e))"
proof (intro conjI)
  have a0: "LICENSE_ADMIN s0 a"
    using issueLicense_roles[OF issue] admin by simp
  have l0: "isActive (licenses s0 i)" "unat (usageCount (licenses s0 i)) = 0" "unat (usageLimit (licenses s0 i)) = 5"
      "usageLimit (licenses s0 i) = 5"
    using issueLicense_Inr(3)[OF issue] by simp_all
  obtain s1 where s1: "recordUsage a t1 i 1 s0 = Inr s1" "LICENSE_ADMIN s1 a"
      "unat (usageCount (licenses s1 i)) = 1" "usageLimit (licenses s1 i) = 5"
      "expiresAt (licenses s1 i) = expiresAt (licenses s0 i)" "isActive (licenses s1 i)"
    using recordUsage_step[of s0 a i t1 1] a0 l0 t(1) by auto
  obtain s2 where s2: "recordUsage a t2 i 1 s1 = Inr s2" "LICENSE_ADMIN s2 a"
      "unat (usageCount (licenses s2 i)) = 2" "usageLimit (licenses s2 i) = 5"
      "expiresAt (licenses s2 i) = expiresAt (licenses s0 i)" "isActive (licenses s2 i)"
    using recordUsage_step[of s1 a i t2 1] s1 t(2) by auto
  obtain s3 where s3: "recordUsage a t3 i 1 s2 = Inr s3" "LICENSE_ADMIN s3 a"
      "unat (usageCount (licenses s3 i)) = 3" "usageLimit (licenses s3 i) = 5"
      "expiresAt (licenses s3 i) = expiresAt (licenses s0 i)" "isActive (licenses s3 i)"
    using recordUsage_step[of s2 a i t3 1] s2 t(3) by auto
  obtain s4 where s4: "recordUsage a t4 i 1 s3 = Inr s4" "LICENSE_ADMIN s4 a"
      "unat (usageCount (licenses s4 i)) = 4" "usageLimit (licenses s4 i) = 5"
      "expiresAt (licenses s4 i) = expiresAt (licenses s0 i)" "isActive (licenses s4 i)"
    using recordUsage_step[of s3 a i t4 1] s3 t(4) by auto
  obtain s5 where s5: "recordUsage a t5 i 1 s4 = Inr s5" "LICENSE_ADMIN s5 a"
      "unat (usageCount (licenses s5 i)) = 5" "\<not> isActive (licenses s5 i)"
    using recordUsage_step[of s4 a i t5 1] s4 t(5) by auto
  have "recordUsage a t6 i 1 s5 = Inl (Revert ''License not active'')"
    using s5 by (intro recordUsage_not_active)
  then show "\<exists>s1 s2 s3 s4 s5.
      recordUsage a t1 i 1 s0 = Inr s1 \<and> recordUsage a t2 i 1 s1 = Inr s2 \<and>
      recordUsage a t3 i 1 s2 = Inr s3 \<and> recordUsage a t4 i 1 s3 = Inr s4 \<and>
      recordUsage a t5 i 1 s4 = Inr s5 \<and>
      isActive (licenses s4 i) \<and> \<not> isActive (licenses s5 i) \<and> unat (usageCount (licenses s5 i)) = 5 \<and>
      recordUsage a t6 i 1 s5 = Inl (Revert ''License not active'')"
    using s1(1) s2(1) s3(1) s4(1,6) s5(1,3,4) by blast
next
  show "\<forall>c now j amount q q'.
       recordUsage c now j amount q = Inr q' \<and> 0 < usageLimit (licenses q' j) \<and>
       usageLimit (licenses q' j) \<le> usageCount (licenses q' j) \<longrightarrow> \<not> isActive (licenses q' j)"
  proof (intro allI impI)
    fix c now j amount q q'
    assume h: "recordUsage c now j amount q = Inr q' \<and> 0 < usageLimit (licenses q' j) \<and>
       usageLimit (licenses q' j) \<le> usageCount (licenses q' j)"
    then obtain L where "licenses q' = (licenses q)(j := L)"
        "isActive L = (\<not> (0 < usageLimit L \<and> usageLimit L \<le> usageCount L))"
      using recordUsage_Inr(6)[of c now j amount q q'] by blast
    with h show "\<not> isActive (licenses q' j)" by simp
  qed
next
  note d0 = route_issue_Status201[OF b_issue]
  have au: "role u = ''admin'' \<or> doc_licensee d0 = user_id u"
    using b_auth d0(6) by simp
  obtain d1 db1 where 1: "route_usage (Some u) new_id opn det n1 m1 db = (Status200 d1, db1)"
      "findById new_id (License_docs db1) = Some d1" "doc_licensee d1 = lee'"
      "doc_expiresAt d1 = expiry" "doc_usageLimit d1 = 5" "doc_usageCount d1 = 1" "doc_isActive d1"
    using route_usage_one[OF d0(1) au b_opn d0(2), of n1 det m1] d0(3,4,5,6) n(1) by auto
  have a1: "role u = ''admin'' \<or> doc_licensee d1 = user_id u"
    using b_auth 1(3) by simp
  obtain d2 db2 where 2: "route_usage (Some u) new_id opn det n2 m2 db1 = (Status200 d2, db2)"
      "findById new_id (License_docs db2) = Some d2" "doc_licensee d2 = lee'"
      "doc_expiresAt d2 = expiry" "doc_usageLimit d2 = 5" "doc_usageCount d2 = 2" "doc_isActive d2"
    using route_usage_one[OF 1(2) a1 b_opn 1(7), of n2 det m2] 1(3,4,5,6) n(2) by auto
  have a2: "role u = ''admin'' \<or> doc_licensee d2 = user_id u"
    using b_auth 2(3) by simp
  obtain d3 db3 where 3: "route_usage (Some u) new_id opn det n3 m3 db2 = (Status200 d3, db3)"
      "findById new_id (License_docs db3) = Some d3" "doc_licensee d3 = lee'"
      "doc_expiresAt d3 = expiry" "doc_usageLimit d3 = 5" "doc_usageCount d3 = 3" "doc_isActive d3"
    using route_usage_one[OF 2(2) a2 b_opn 2(7), of n3 det m3] 2(3,4,5,6) n(3) by auto
  have a3: "role u = ''admin'' \<or> doc_licensee d3 = user_id u"
    using b_auth 3(3) by simp
  obtain d4 db4 where 4: "route_usage (Some u) new_id opn det n4 m4 db3 = (Status200 d4, db4)"
      "findById new_id (License_docs db4) = Some d4" "doc_licensee d4 = lee'"
      "doc_expiresAt d4 = expiry" "doc_usageLimit d4 = 5" "doc_usageCount d4 = 4" "doc_isActive d4"
    using route_usage_one[OF 3(2) a3 b_opn 3(7), of n4 det m4] 3(3,4,5,6) n(4) by auto
  have a4: "role u = ''admin'' \<or> doc_licensee d4 = user_id u"
    using b_auth 4(3) by simp
  obtain d5 db5 where 5: "route_usage (Some u) new_id opn det n5 m5 db4 = (Status200 d5, db5)"
      "findById new_id (License_docs db5) = Some d5" "doc_licensee d5 = lee'"
      "doc_usageCount d5 = 5" "\<not> doc_isActive d5"
    using route_usage_one[OF 4(2) a4 b_opn 4(7), of n5 det m5] 4(3,4,5,6) n(5) by auto
  have a5: "role u = ''admin'' \<or> doc_licensee d5 = user_id u"
    using b_auth 5(3) by simp
  have "route_usage (Some u) new_id opn det n6 m6 db5 = (Status400 ''License is not valid'', db5)"
    using 5(2) a5 b_opn 5(5)
    by (auto simp: route_usage_def LicenseSchema_isValid_def)
  then show "\<exists>d1 d2 d3 d4 d5 db1 db2 db3 db4 db5.
      route_usage (Some u) new_id opn det n1 m1 db = (Status200 d1, db1) \<and>
      route_usage (Some u) new_id opn det n2 m2 db1 = (Status200 d2, db2) \<and>
      route_usage (Some u) new_id opn det n3 m3 db2 = (Status200 d3, db3) \<and>
      route_usage (Some u) new_id opn det n4 m4 db3 = (Status200 d4, db4) \<and>
      route_usage (Some u) new_id opn det n5 m5 db4 = (Status200 d5, db5) \<and>
      doc_isActive d4 \<and> \<not> doc_isActive d5 \<and> doc_usageCount d5 = 5 \<and>
      findById new_id (License_docs db5) = Some d5 \<and>
      route_usage (Some u) new_id opn det n6 m6 db5 = (Status400 ''License is not valid'', db5)"
    using 1(1) 2(1) 3(1) 4(1,7) 5(1,2,4,5) by blast
next
  show "\<forall>now opn' det' e.
       0 < doc_usageLimit (LicenseSchema_recordUsage now opn' det' e) \<and>
       doc_usageLimit (LicenseSchema_recordUsage now opn' det' e)
         \<le> doc_usageCount (LicenseSchema_recordUsage now opn' det' e)
       \<longrightarrow> \<not> doc_isActive (LicenseSchema_recordUsage now opn' det' e)"
    by (auto simp: LicenseSchema_recordUsage_def Let_def)
qed

theorem five_uses_exhaust_the_license_witness:
  "(\<exists>s1 s2 s3 s4 s5.
      recordUsage 1 1001 1 1 (apply_tx (example_tx 2 1000 (IssueLicense 1 3 Commercial InferenceOnly 3600 5)) (fresh 1)) = Inr s1 \<and>
      recordUsage 1 1002 1 1 s1 = Inr s2 \<and>
      recordUsage 1 1003 1 1 s2 = Inr s3 \<and> recordUsage 1 1004 1 1 s3 = Inr s4 \<and>
      recordUsage 1 1005 1 1 s4 = Inr s5 \<and>
      isActive (licenses s4 1) \<and> \<not> isActive (licenses s5 1) \<and> unat (usageCount (licenses s5 1)) = 5 \<and>
      recordUsage 1 1006 1 1 s5 = Inl (Revert ''License not active'')) \<and>
   (\<exists>d1 d2 d3 d4 d5 db1 db2 db3 db4 db5.
      route_usage (Some licensee_user) 2 ''inference'' ''{}'' 2001 2001
        (snd (route_issue (Some owner_user) 10 3 Commercial InferenceOnly 9000 (Some 5) 1000 2
           ''LIC-1000-8'' example_db)) = (Status200 d1, db1) \<and>
      route_usage (Some licensee_user) 2 ''inference'' ''{}'' 2002 2002 db1 = (Status200 d2, db2) \<and>
      route_usage (Some licensee_user) 2 ''inference'' ''{}'' 2003 2003 db2 = (Status200 d3, db3) \<and>
      route_usage (Some licensee_user) 2 ''inference'' ''{}'' 2004 2004 db3 = (Status200 d4, db4) \<and>
      route_usage (Some licensee_user) 2 ''inference'' ''{}'' 9000 9000 db4 = (Status200 d5, db5) \<and>
      doc_isActive d4 \<and> \<not> doc_isActive d5 \<and> doc_usageCount d5 = 5 \<and>
      findById 2 (License_docs db5) = Some d5 \<and>
      route_usage (Some licensee_user) 2 ''inference'' ''{}'' 2006 2006 db5 =
        (Status400 ''License is not valid'', db5))"
proof -
  have issue: "issueLicense example_registry 2 1000 1 3 Commercial InferenceOnly 3600 5 (fresh 1) =
      Inr (1, apply_tx (example_tx 2 1000 (IssueLicense 1 3 Commercial InferenceOnly 3600 5)) (fresh 1))"
    by (simp add: contract_defs)
  have admin: "LICENSE_ADMIN (fresh 1) 1"
    by (simp add: fresh_def)
  have e: "expiresAt (licenses (apply_tx (example_tx 2 1000 (IssueLicense 1 3 Commercial InferenceOnly 3600 5)) (fresh 1)) 1) = 4600"
    by (simp add: contract_defs)
  have t: "(1001 :: uint256) < 4600" "(1002 :: uint256) < 4600" "(1003 :: uint256) < 4600"
      "(1004 :: uint256) < 4600" "(1005 :: uint256) < 4600"
    by (simp_all add: word_less_nat_alt)
  have b_issue: "route_issue (Some owner_user) 10 3 Commercial InferenceOnly 9000 (Some 5) 1000 2
        ''LIC-1000-8'' example_db =
      (Status201 \<lparr>doc_id = 2, doc_licenseId = ''LIC-1000-8'', doc_model = 10, doc_licensee = 3,
          doc_issuer = 2, doc_licenseType = Commercial, doc_accessLevel = InferenceOnly,
          doc_issuedAt = 1000, doc_expiresAt = 9000, doc_isActive = True, doc_usageLimit = 5,
          doc_usageCount = 0, doc_revocationReason = None, doc_usageHistory = []\<rparr>,
       snd (route_issue (Some owner_user) 10 3 Commercial InferenceOnly 9000 (Some 5) 1000 2
          ''LIC-1000-8'' example_db))"
    by (simp add: backend_defs)
  have b_auth: "role licensee_user = ''admin'' \<or> 3 = user_id licensee_user"
    by (simp add: licensee_user_def)
  have b_opn: "''inference'' \<noteq> []"
    by simp
  have n: "(2001 :: int) \<le> 9000" "(2002 :: int) \<le> 9000" "(2003 :: int) \<le> 9000"
      "(2004 :: int) \<le> 9000" "(9000 :: int) \<le> 9000"
    by simp_all
  note th = five_uses_exhaust_the_license[OF issue admin t[folded e] b_issue b_auth b_opn n]
  show ?thesis
    by (rule conjI[OF th[THEN conjunct1] th[THEN conjunct2, THEN conjunct2, THEN conjunct1]])
qed

section \<open>The usage count over a history of transactions\<close>

lemma usageCount_apply_tx:
  assumes "unissued_blank s"
  shows "usageCount (licenses s i) \<le> usageCount (licenses (apply_tx tx s) i)"
proof (cases "tx_call tx")
  case (IssueLicense mid lee ltype level duration limit)
  show ?thesis
  proof (cases "issueLicense (tx_ownerOf tx) (tx_sender tx) (tx_timestamp tx) mid lee ltype level duration limit s")
    case (Inl e)
    with IssueLicense show ?thesis by (simp add: apply_tx_def)
  next
    case (Inr r)
    obtain j s' where r: "r = (j, s')" by (cases r)
    note iss = Inr[unfolded r]
    have "\<not> issued s j"
      using issued_issue(2)[OF issueLicense_Inr(1,2)[OF iss]] .
    then have "usageCount (licenses s j) = 0"
      using assms by (simp add: unissued_blank_def)
    then show ?thesis
      using IssueLicense iss issueLicense_Inr(3)[OF iss] by (simp add: apply_tx_def)
  qed
next
  case (RevokeLicense j)
  then show ?thesis
    by (auto simp: apply_tx_def commit_def split: sum.splits dest: revokeLicense_Inr(1))
next
  case (RecordUsage j amount)
  show ?thesis
  proof (cases "recordUsage (tx_sender tx) (tx_timestamp tx) j amount s")
    case (Inl e)
    with RecordUsage show ?thesis by (simp add: apply_tx_def commit_def)
  next
    case (Inr s')
    have "usageCount (licenses s j) \<le> usageCount (licenses s' j)"
      using checked_add_le[OF recordUsage_Inr(4)[OF Inr]] .
    moreover have "i \<noteq> j \<Longrightarrow> licenses s' i = licenses s i"
      using recordUsage_Inr(6)[OF Inr] by auto
    ultimately show ?thesis
      using RecordUsage Inr by (cases "i = j") (simp_all add: apply_tx_def commit_def)
  qed
next
  case (RenewLicense j dur)
  show ?thesis
  proof (cases "renewLicense (tx_ownerOf tx) (tx_sender tx) (tx_timestamp tx) j dur s")
    case (Inl e)
    with RenewLicense show ?thesis by (simp add: apply_tx_def commit_def)
  next
    case (Inr s')
    obtain L where "licenses s' = (licenses s)(j := L)" "usageCount L = usageCount (licenses s j)"
      using renewLicense_Inr(2)[OF Inr] by blast
    then show ?thesis
      using RenewLicense Inr by (cases "i = j") (simp_all add: apply_tx_def commit_def)
  qed
next
  case (AddLicenseAdmin a)
  then show ?thesis
    by (auto simp: apply_tx_def commit_def addLicenseAdmin_def split: sum.splits if_splits)
next
  case (RemoveLicenseAdmin a)
  then show ?thesis
    by (auto simp: apply_tx_def commit_def removeLicenseAdmin_def split: sum.splits if_splits)
qed (simp_all add: apply_tx_def)

lemma usageCount_run:
  "unissued_blank s \<Longrightarrow> usageCount (licenses s i) \<le> usageCount (licenses (run txs s) i)"
proof (induction txs arbitrary: s)
  case Nil
  show ?case by simp
next
  case (Cons tx txs)
  have "usageCount (licenses s i) \<le> usageCount (licenses (apply_tx tx s) i)"
    using Cons.prems by (rule usageCount_apply_tx)
  also have "\<dots> \<le> usageCount (licenses (run txs (apply_tx tx s)) i)"
    using Cons.prems by (intro Cons.IH unissued_blank_apply_tx)
  finally show ?case by simp
qed

text \<open>
  Claim C9. In the contract, from the storage the constructor leaves, over every
  sequence of transactions (issue, revoke, record usage, renew, validate, the queries
  and the role changes; reverted ones included), the \<open>usageCount\<close> of every license id
  after a longer history is at least what it was after any prefix of it. In the
  backend, over every sequence of requests to the five routes from any database, a
  document that is stored after a prefix of the history and after the whole of it has
  a \<open>usageCount\<close> at least what it was. (The routes never remove a document; MongoDB's
  own expiry of documents through the TTL index on \<open>expiresAt\<close> is no request.)
\<close>

theorem usageCount_never_decreases:
  assumes "findById k (License_docs (serve rs db)) = Some d"
    and "findById k (License_docs (serve (rs @ rs') db)) = Some d'"
  shows "usageCount (licenses (run txs (fresh deployer)) i)
           \<le> usageCount (licenses (run (txs @ txs') (fresh deployer)) i) \<and>
         doc_usageCount d \<le> doc_usageCount d'"
proof
  have "unissued_blank (run txs (fresh deployer))"
    by (intro unissued_blank_run unissued_blank_fresh)
  then show "usageCount (licenses (run txs (fresh deployer)) i)
           \<le> usageCount (licenses (run (txs @ txs') (fresh deployer)) i)"
    unfolding run_append by (rule usageCount_run)
next
  obtain e where "findById k (License_docs (serve rs' (serve rs db))) = Some e"
      "doc_usageCount d \<le> doc_usageCount e"
    using serve_usageCount[OF assms(1), of rs'] by blast
  then show "doc_usageCount d \<le> doc_usageCount d'"
    using assms(2) by (simp add: serve_append)
qed

theorem usageCount_never_decreases_witness:
  "usageCount (licenses (run
       [example_tx 2 1000 (IssueLicense 1 3 Commercial InferenceOnly 3600 5),
        example_tx 1 1001 (RecordUsage 1 2)] (fresh 1)) 1) = 2 \<and>
   usageCount (licenses (run
       [example_tx 2 1000 (IssueLicense 1 3 Commercial InferenceOnly 3600 5),
        example_tx 1 1001 (RecordUsage 1 2)] (fresh 1)) 1)
   \<le> usageCount (licenses (run
       ([example_tx 2 1000 (IssueLicense 1 3 Commercial InferenceOnly 3600 5),
         example_tx 1 1001 (RecordUsage 1 2)] @
        [example_tx 2 1002 (RevokeLicense 1), example_tx 3 1003 (RenewLicense 1 60)])
       (fresh 1)) 1) \<and>
   findById 1 (License_docs (serve
       [Usage (Some licensee_user) 1 ''inference'' ''{}'' 2001 2001] example_db)) =
     Some (example_doc\<lparr>doc_usageCount := 1,
       doc_usageHistory := [\<lparr>timestamp = 2001, operation = ''inference'', details = ''{}''\<rparr>]\<rparr>) \<and>
   findById 1 (License_docs (serve
       ([Usage (Some licensee_user) 1 ''inference'' ''{}'' 2001 2001] @
        [Renew (Some licensee_user) 1 60 2002,
         Usage (Some licensee_user) 1 ''inference'' ''{}'' 2003 2003,
         Revoke (Some owner_user) 1 ''policy violation'']) example_db)) =
     Some (example_doc\<lparr>doc_usageCount := 2, doc_expiresAt := 65000, doc_isActive := False,
       doc_revocationReason := Some ''policy violation'',
       doc_usageHistory := [\<lparr>timestamp = 2001, operation = ''inference'', details = ''{}''\<rparr>,
         \<lparr>timestamp = 2003, operation = ''inference'', details = ''{}''\<rparr>]\<rparr>) \<and>
   doc_usageCount (example_doc\<lparr>doc_usageCount := 1,
       doc_usageHistory := [\<lparr>timestamp = 2001, operation = ''inference'', details = ''{}''\<rparr>]\<rparr>)
   \<le> doc_usageCount (example_doc\<lparr>doc_usageCount := 2, doc_expiresAt := 65000,
       doc_isActive := False, doc_revocationReason := Some ''policy violation'',
       doc_usageHistory := [\<lparr>timestamp = 2001, operation = ''inference'', details = ''{}''\<rparr>,
         \<lparr>timestamp = 2003, operation = ''inference'', details = ''{}''\<rparr>]\<rparr>)"
proof -
  have 1: "usageCount (licenses (run
       [example_tx 2 1000 (IssueLicense 1 3 Commercial InferenceOnly 3600 5),
        example_tx 1 1001 (RecordUsage 1 2)] (fresh 1)) 1) = 2"
    by (simp add: contract_defs)
  have 2: "findById 1 (License_docs (serve
       [Usage (Some licensee_user) 1 ''inference'' ''{}'' 2001 2001] example_db)) =
     Some (example_doc\<lparr>doc_usageCount := 1,
       doc_usageHistory := [\<lparr>timestamp = 2001, operation = ''inference'', details = ''{}''\<rparr>]\<rparr>)"
    by (simp add: backend_defs)
  have 3: "findById 1 (License_docs (serve
       ([Usage (Some licensee_user) 1 ''inference'' ''{}'' 2001 2001] @
        [Renew (Some licensee_user) 1 60 2002,
         Usage (Some licensee_user) 1 ''inference'' ''{}'' 2003 2003,
         Revoke (Some owner_user) 1 ''policy violation'']) example_db)) =
     Some (example_doc\<lparr>doc_usageCount := 2, doc_expiresAt := 65000, doc_isActive := False,
       doc_revocationReason := Some ''policy violation'',
       doc_usageHistory := [\<lparr>timestamp = 2001, operation = ''inference'', details = ''{}''\<rparr>,
         \<lparr>timestamp = 2003, operation = ''inference'', details = ''{}''\<rparr>]\<rparr>)"
    by (simp add: backend_defs)
  note th = usageCount_never_decreases[OF 2 3, of
        "[example_tx 2 1000 (IssueLicense 1 3 Commercial InferenceOnly 3600 5),
          example_tx 1 1001 (RecordUsage 1 2)]" 1 1
        "[example_tx 2 1002 (RevokeLicense 1), example_tx 3 1003 (RenewLicense 1 60)]"]
  show ?thesis
    using 1 2 3 th by blast
qed

section \<open>Renewal\<close>

text \<open>
  Claim C3. In the contract, a renewal by the model's owner, the licensee or a license
  admin, with \<open>additionalDuration > 0\<close> and a new expiry that fits in 256 bits, succeeds,
  and the new \<open>expiresAt\<close> is \<open>now + additionalDuration\<close> when \<open>now \<ge> expiresAt\<close> held
  before the call and the old \<open>expiresAt + additionalDuration\<close> otherwise (as words and
  as numbers: nothing wraps). In the backend, a renewal through the route by an admin,
  the licensee, the issuer or the model's owner, with a duration of at least one second
  and a new expiry that is a valid \<open>Date\<close>, is answered 200 and stores the same new
  expiry, in milliseconds; \<open>renew\<close> tests \<open>now > expiresAt\<close>, and at \<open>now = expiresAt\<close>
  both of its branches give the same date.
\<close>

theorem renewLicense_expiry:
  assumes "ownerOf (modelId (licenses s i)) = Some owner"
    and "owner = sender \<or> licensee (licenses s i) = sender \<or> LICENSE_ADMIN s sender"
    and "0 < dur"
    and "unat (if expiresAt (licenses s i) \<le> now then now else expiresAt (licenses s i)) + unat dur
           < 2 ^ 256"
    and "findById k (License_docs db) = Some d"
    and "Model_owner db (doc_model d) = Some owner'"
    and "role u = ''admin'' \<or> doc_licensee d = user_id u \<or> doc_issuer d = user_id u \<or>
         owner' = user_id u"
    and "1 \<le> dur'"
    and "valid_Date (doc_expiresAt d)"
    and "valid_Date (if doc_expiresAt d \<le> now' then now' + dur' * 1000
                     else doc_expiresAt d + dur' * 1000)"
  shows "(\<exists>s'. renewLicense ownerOf sender now i dur s = Inr s' \<and>
            expiresAt (licenses s' i) =
              (if expiresAt (licenses s i) \<le> now then now + dur
               else expiresAt (licenses s i) + dur) \<and>
            unat (expiresAt (licenses s' i)) =
              (if expiresAt (licenses s i) \<le> now then unat now + unat dur
               else unat (expiresAt (licenses s i)) + unat dur)) \<and>
         (\<exists>d' db'. route_renew (Some u) k dur' now' db = (Status200 d', db') \<and>
            findById k (License_docs db') = Some d' \<and>
            doc_expiresAt d' =
              (if doc_expiresAt d \<le> now' then now' + dur' * 1000
               else doc_expiresAt d + dur' * 1000))"
proof
  obtain d' where r: "LicenseSchema_renew now' dur' d = Some d'"
    using LicenseSchema_renew_valid[OF assms(9,10)] by blast
  have ro: "route_renew (Some u) k dur' now' db =
      (Status200 d', db\<lparr>License_docs := save d' (License_docs db)\<rparr>)"
    using assms(5,6,7,8) r by (auto simp: route_renew_def)
  have "doc_id d' = k"
    using LicenseSchema_renew_Some(2)[OF r] findById_Some_id[OF assms(5)] by simp
  then have "findById k (save d' (License_docs db)) = Some d'"
    using assms(5) by (simp add: findById_save)
  then show "\<exists>d' db'. route_renew (Some u) k dur' now' db = (Status200 d', db') \<and>
            findById k (License_docs db') = Some d' \<and>
            doc_expiresAt d' =
              (if doc_expiresAt d \<le> now' then now' + dur' * 1000
               else doc_expiresAt d + dur' * 1000)"
    using ro LicenseSchema_renew_Some(4)[OF r] by simp
next
  define base where "base = (if expiresAt (licenses s i) \<le> now then now else expiresAt (licenses s i))"
  have "unat base + unat dur < 2 ^ LENGTH(256)"
    using assms(4) by (simp add: base_def)
  then have u: "unat (base + dur) = unat base + unat dur"
    by (simp only: unat_add_lem)
  have c: "checked_add base dur = Inr (base + dur)"
    using assms(4) by (simp add: checked_add_def base_def)
  show "\<exists>s'. renewLicense ownerOf sender now i dur s = Inr s' \<and>
            expiresAt (licenses s' i) =
              (if expiresAt (licenses s i) \<le> now then now + dur
               else expiresAt (licenses s i) + dur) \<and>
            unat (expiresAt (licenses s' i)) =
              (if expiresAt (licenses s i) \<le> now then unat now + unat dur
               else unat (expiresAt (licenses s i)) + unat dur)"
    using assms(1,2,3) c u
    by (cases "expiresAt (licenses s i) \<le> now") (auto simp: renewLicense_def Let_def base_def)
qed

theorem renewLicense_expiry_witness:
  "(\<exists>s'. renewLicense example_registry 3 5000 1 60
            (apply_tx (example_tx 2 1000 (IssueLicense 1 3 Commercial InferenceOnly 3600 5)) (fresh 1)) = Inr s' \<and>
          expiresAt (licenses s' 1) = 5060 \<and> unat (expiresAt (licenses s' 1)) = 5060) \<and>
   (\<exists>s'. renewLicense example_registry 3 2000 1 60
            (apply_tx (example_tx 2 1000 (IssueLicense 1 3 Commercial InferenceOnly 3600 5)) (fresh 1)) = Inr s' \<and>
          expiresAt (licenses s' 1) = 4660 \<and> unat (expiresAt (licenses s' 1)) = 4660) \<and>
   (\<exists>d' db'. route_renew (Some licensee_user) 1 60 5000 example_db = (Status200 d', db') \<and>
      findById 1 (License_docs db') = Some d' \<and> doc_expiresAt d' = 65000) \<and>
   (\<exists>d' db'. route_renew (Some licensee_user) 1 60 7000 example_db = (Status200 d', db') \<and>
      findById 1 (License_docs db') = Some d' \<and> doc_expiresAt d' = 67000) \<and>
   (\<exists>d' db'. route_renew (Some licensee_user) 1 60 2000 example_db = (Status200 d', db') \<and>
      findById 1 (License_docs db') = Some d' \<and> doc_expiresAt d' = 65000)"
proof -
  let ?s = "apply_tx (example_tx 2 1000 (IssueLicense 1 3 Commercial InferenceOnly 3600 5)) (fresh 1)"
  have l: "modelId (licenses ?s 1) = 1" "licensee (licenses ?s 1) = 3"
      "expiresAt (licenses ?s 1) = 4600"
    by (simp_all add: contract_defs)
  have o: "example_registry (modelId (licenses ?s 1)) = Some 2"
    by (simp add: l example_registry_def)
  have a: "2 = (3 :: address) \<or> licensee (licenses ?s 1) = 3 \<or> LICENSE_ADMIN ?s 3"
    by (simp add: l)
  have d: "(0 :: uint256) < 60"
    by simp
  have c: "(4600 :: uint256) \<le> 5000" "\<not> (4600 :: uint256) \<le> 2000"
    by (simp_all add: word_le_nat_alt)
  have n1: "unat (if expiresAt (licenses ?s 1) \<le> 5000 then 5000 else expiresAt (licenses ?s 1))
        + unat (60 :: uint256) < 2 ^ 256"
    by (simp add: l c)
  have n2: "unat (if expiresAt (licenses ?s 1) \<le> 2000 then 2000 else expiresAt (licenses ?s 1))
        + unat (60 :: uint256) < 2 ^ 256"
    by (simp add: l c)
  have f: "findById 1 (License_docs example_db) = Some example_doc"
    by (simp add: backend_defs)
  have m: "Model_owner example_db (doc_model example_doc) = Some 2"
    by (simp add: backend_defs)
  have au: "role licensee_user = ''admin'' \<or> doc_licensee example_doc = user_id licensee_user \<or>
      doc_issuer example_doc = user_id licensee_user \<or> 2 = user_id licensee_user"
    by (simp add: backend_defs)
  have du: "(1 :: int) \<le> 60"
    by simp
  have v: "valid_Date (doc_expiresAt example_doc)"
    by (simp add: backend_defs)
  have v1: "valid_Date (if doc_expiresAt example_doc \<le> 5000 then 5000 + 60 * 1000
                     else doc_expiresAt example_doc + 60 * 1000)"
    and v2: "valid_Date (if doc_expiresAt example_doc \<le> 7000 then 7000 + 60 * 1000
                     else doc_expiresAt example_doc + 60 * 1000)"
    and v3: "valid_Date (if doc_expiresAt example_doc \<le> 2000 then 2000 + 60 * 1000
                     else doc_expiresAt example_doc + 60 * 1000)"
    by (simp_all add: backend_defs)
  note r1 = renewLicense_expiry[where ownerOf = example_registry and s = ?s and i = 1 and
      owner = 2 and sender = 3 and dur = 60 and now = 5000 and now' = 5000 and dur' = 60 and
      d = example_doc and db = example_db and k = 1 and u = licensee_user and owner' = 2,
      OF o a d n1 f m au du v v1]
  note r2 = renewLicense_expiry[where ownerOf = example_registry and s = ?s and i = 1 and
      owner = 2 and sender = 3 and dur = 60 and now = 2000 and now' = 7000 and dur' = 60 and
      d = example_doc and db = example_db and k = 1 and u = licensee_user and owner' = 2,
      OF o a d n2 f m au du v v2]
  note r3 = renewLicense_expiry[where ownerOf = example_registry and s = ?s and i = 1 and
      owner = 2 and sender = 3 and dur = 60 and now = 2000 and now' = 2000 and dur' = 60 and
      d = example_doc and db = example_db and k = 1 and u = licensee_user and owner' = 2,
      OF o a d n2 f m au du v v3]
  show ?thesis
    using r1 r2 r3 by (simp add: l c example_doc_def)
qed

text \<open>
  Beyond the range of a \<open>Date\<close> the route stores nothing: a duration of 9e12 seconds
  passes the validator, the new expiry is an Invalid Date, and the answer is 500.
\<close>

lemma route_renew_invalid_Date:
  "route_renew (Some licensee_user) 1 9000000000000 2000 example_db = (Status500, example_db)"
  by (simp add: backend_defs)

text \<open>
  The reactivation test is \<open>!isActive && usageCount < usageLimit\<close>, in the contract and in
  the backend's \<open>renew\<close> alike: a successful renewal leaves the license active exactly
  when it was active before or \<open>usageCount < usageLimit\<close> held.
\<close>

lemma renewLicense_isActive:
  assumes "renewLicense ownerOf sender now i dur s = Inr s'"
  shows "isActive (licenses s' i) =
           (isActive (licenses s i) \<or> usageCount (licenses s i) < usageLimit (licenses s i))"
proof -
  obtain L where "licenses s' = (licenses s)(i := L)"
      "isActive L = (isActive (licenses s i) \<or> usageCount (licenses s i) < usageLimit (licenses s i))"
    using renewLicense_Inr(2)[OF assms] by blast
  then show ?thesis by simp
qed

lemma LicenseSchema_renew_isActive:
  "LicenseSchema_renew now dur d = Some d' \<Longrightarrow>
   doc_isActive d' = (doc_isActive d \<or> doc_usageCount d < doc_usageLimit d)"
  by (rule LicenseSchema_renew_Some(3))

text \<open>
  Claim C4. The claim's rule reactivates an inactive license when \<open>usageLimit = 0\<close> or
  \<open>usageCount < usageLimit\<close>, and does not let a renewal undo a revocation. The code
  misses both, in the contract and in the backend alike. A license with
  \<open>usageLimit = 5\<close> and no use recorded is active when issued and inactive once its
  owner has revoked it, with no breach of its usage limit; the licensee's renewal
  succeeds and the license is active again, although the comment on the test reads
  "Reactivate license if it was inactive due to expiration". And an unlimited license
  (\<open>usageLimit = 0\<close>, which \<open>issueLicense\<close> documents as "0 for unlimited") that is
  inactive stays inactive through a successful renewal: the test lacks the
  \<open>usageLimit == 0 ||\<close> that \<open>validateLicense\<close> has.
\<close>

theorem renew_reactivation_at_failing_inputs:
  "isActive (licenses (run
       [example_tx 2 1000 (IssueLicense 1 3 Commercial InferenceOnly 3600 5)] (fresh 1)) 1) \<and>
   \<not> isActive (licenses (run
       [example_tx 2 1000 (IssueLicense 1 3 Commercial InferenceOnly 3600 5),
        example_tx 2 1001 (RevokeLicense 1)] (fresh 1)) 1) \<and>
   usageCount (licenses (run
       [example_tx 2 1000 (IssueLicense 1 3 Commercial InferenceOnly 3600 5),
        example_tx 2 1001 (RevokeLicense 1)] (fresh 1)) 1) = 0 \<and>
   usageLimit (licenses (run
       [example_tx 2 1000 (IssueLicense 1 3 Commercial InferenceOnly 3600 5),
        example_tx 2 1001 (RevokeLicense 1)] (fresh 1)) 1) = 5 \<and>
   fst (execute example_registry 3 1002 (RenewLicense 1 60) (run
       [example_tx 2 1000 (IssueLicense 1 3 Commercial InferenceOnly 3600 5),
        example_tx 2 1001 (RevokeLicense 1)] (fresh 1))) = Done \<and>
   isActive (licenses (run
       [example_tx 2 1000 (IssueLicense 1 3 Commercial InferenceOnly 3600 5),
        example_tx 2 1001 (RevokeLicense 1),
        example_tx 3 1002 (RenewLicense 1 60)] (fresh 1)) 1) \<and>
   map_option doc_isActive (findById 1 (License_docs (serve
       [Revoke (Some owner_user) 1 ''policy violation'']
       (example_db\<lparr>License_docs := [example_doc\<lparr>doc_usageLimit := 5\<rparr>]\<rparr>)))) = Some False \<and>
   map_option doc_isActive (findById 1 (License_docs (serve
       [Revoke (Some owner_user) 1 ''policy violation'', Renew (Some licensee_user) 1 60 2000]
       (example_db\<lparr>License_docs := [example_doc\<lparr>doc_usageLimit := 5\<rparr>]\<rparr>)))) = Some True \<and>
   usageLimit (licenses (run
       [example_tx 2 1000 (IssueLicense 1 3 Commercial InferenceOnly 3600 0),
        example_tx 2 1001 (RevokeLicense 1)] (fresh 1)) 1) = 0 \<and>
   \<not> isActive (licenses (run
       [example_tx 2 1000 (IssueLicense 1 3 Commercial InferenceOnly 3600 0),
        example_tx 2 1001 (RevokeLicense 1)] (fresh 1)) 1) \<and>
   fst (execute example_registry 3 1002 (RenewLicense 1 60) (run
       [example_tx 2 1000 (IssueLicense 1 3 Commercial InferenceOnly 3600 0),
        example_tx 2 1001 (RevokeLicense 1)] (fresh 1))) = Done \<and>
   \<not> isActive (licenses (run
       [example_tx 2 1000 (IssueLicense 1 3 Commercial InferenceOnly 3600 0),
        example_tx 2 1001 (RevokeLicense 1),
        example_tx 3 1002 (RenewLicense 1 60)] (fresh 1)) 1) \<and>
   fst (handle (Renew (Some licensee_user) 1 60 2000)
       (serve [Revoke (Some owner_user) 1 ''policy violation''] example_db)) =
     Status200 (example_doc\<lparr>doc_isActive := False,
       doc_revocationReason := Some ''policy violation'', doc_expiresAt := 65000\<rparr>)"
  by (simp add: contract_defs backend_defs)

section \<open>Issuance\<close>

text \<open>
  Claim C7. When the registry names an owner of the model who is not the caller, and
  the caller is no license admin, \<open>issueLicense\<close> reverts with "Caller is not the model
  owner or admin" and the storage (the licenses, the counter and both indexes) is what
  it was. The backend's route answers 403 and leaves the database as it was when the
  user neither owns the model nor has the role \<open>admin\<close>.
\<close>

theorem issue_unauthorized:
  assumes "ownerOf mid = Some owner" and "owner \<noteq> sender" and "\<not> LICENSE_ADMIN s sender"
    and "Model_owner db mid' = Some owner'" and "owner' \<noteq> user_id u" and "role u \<noteq> ''admin''"
  shows "execute ownerOf sender now (IssueLicense mid lee ltype level duration limit) s =
           (Reverted (Revert ''Caller is not the model owner or admin''), s) \<and>
         route_issue (Some u) mid' lee' ltype' level' expiry limit' now' new_id licenseId db =
           (Status403 ''Not authorized to issue license for this model'', db)"
  using assms by (simp add: issueLicense_def route_issue_def)

theorem issue_unauthorized_witness:
  "execute example_registry 4 1000 (IssueLicense 1 3 Commercial InferenceOnly 3600 5) (fresh 1) =
     (Reverted (Revert ''Caller is not the model owner or admin''), fresh 1) \<and>
   route_issue (Some other_user) 10 3 Commercial InferenceOnly 9000 (Some 5) 1000 2 ''LIC-1000-8''
       example_db =
     (Status403 ''Not authorized to issue license for this model'', example_db)"
proof -
  have 1: "example_registry 1 = Some 2"
    by (simp add: example_registry_def)
  have 2: "(2 :: address) \<noteq> 4"
    by simp
  have 3: "\<not> LICENSE_ADMIN (fresh 1) 4"
    by (simp add: fresh_def)
  have 4: "Model_owner example_db 10 = Some 2"
    by (simp add: example_db_def)
  have 5: "2 \<noteq> user_id other_user" "role other_user \<noteq> ''admin''"
    by (simp_all add: other_user_def)
  show ?thesis
    by (rule issue_unauthorized[where ownerOf = example_registry and mid = 1 and
          db = example_db and mid' = 10, OF 1 2 3 4 5])
qed

lemma issue_authorized_example:
  "fst (execute example_registry 2 1000 (IssueLicense 1 3 Commercial InferenceOnly 3600 5) (fresh 1))
     = Returned_id 1 \<and>
   fst (route_issue (Some owner_user) 10 3 Commercial InferenceOnly 9000 (Some 5) 1000 2
       ''LIC-1000-8'' example_db) =
     Status201 \<lparr>doc_id = 2, doc_licenseId = ''LIC-1000-8'', doc_model = 10, doc_licensee = 3,
        doc_issuer = 2, doc_licenseType = Commercial, doc_accessLevel = InferenceOnly,
        doc_issuedAt = 1000, doc_expiresAt = 9000, doc_isActive = True, doc_usageLimit = 5,
        doc_usageCount = 0, doc_revocationReason = None, doc_usageHistory = []\<rparr>"
  by (simp add: contract_defs backend_defs)

section \<open>Revocation\<close>

lemma revokeLicense_already_inactive:
  "\<not> isActive (licenses s i) \<Longrightarrow>
   revokeLicense ownerOf sender i s = Inl (Revert ''License already inactive'')"
  by (simp add: revokeLicense_def Let_def)

lemma revokeLicense_active:
  assumes "isActive (licenses s i)" and "ownerOf (modelId (licenses s i)) = Some owner"
    and "owner = sender \<or> LICENSE_ADMIN s sender"
  shows "\<exists>s'. revokeLicense ownerOf sender i s = Inr s' \<and> \<not> isActive (licenses s' i)"
  using assms by (auto simp: revokeLicense_def Let_def)

lemma save_list_all2:
  "findById (doc_id d') docs = Some d \<Longrightarrow>
   list_all2 (\<lambda>x y. y = x \<or> (x = d \<and> y = d')) docs (save d' docs)"
proof (induction docs)
  case Nil
  then show ?case by (simp add: findById_def)
next
  case (Cons x xs)
  show ?case
  proof (cases "doc_id x = doc_id d'")
    case True
    then have "x = d"
      using Cons.prems by (simp add: findById_def)
    moreover have "list_all2 (\<lambda>x y. y = x \<or> (x = d \<and> y = d')) xs xs"
      by (simp add: list_all2_same)
    ultimately show ?thesis
      using True by simp
  next
    case False
    then have "findById (doc_id d') xs = Some d"
      using Cons.prems by (simp add: findById_def)
    then show ?thesis
      using False Cons.IH by simp
  qed
qed

lemma route_revoke_Status200:
  assumes "route_revoke req_user k reason db = (Status200 d', db')"
  shows "\<exists>d. findById k (License_docs db) = Some d \<and>
           d' = d\<lparr>doc_isActive := False, doc_revocationReason := Some reason\<rparr> \<and>
           db' = db\<lparr>License_docs := save d' (License_docs db)\<rparr>"
  using assms
  by (auto simp: route_revoke_def LicenseSchema_revoke_def Let_def
      split: option.splits if_splits)

text \<open>
  Claim C10. A successful \<open>revokeLicense\<close> changes, in the contract's storage, only the
  \<open>isActive\<close> flag of the license it names: every other field of that license, every
  other license, the counter and both indexes are what they were (the contract keeps no
  reason). A successful revoke route changes, in the database, only \<open>isActive\<close> and
  \<open>revocationReason\<close> of the document it names: every stored document is unchanged or
  is that document with these two fields set.
\<close>

theorem revoke_frame:
  assumes "revokeLicense ownerOf sender i s = Inr s'"
    and "route_revoke req_user k reason db = (Status200 d', db')"
  shows "licenses s' i = (licenses s i)\<lparr>isActive := False\<rparr> \<and>
         (\<forall>j. j \<noteq> i \<longrightarrow> licenses s' j = licenses s j) \<and>
         licenseCounter s' = licenseCounter s \<and> modelLicenses s' = modelLicenses s \<and>
         userLicenses s' = userLicenses s \<and>
         (\<exists>d. findById k (License_docs db) = Some d \<and>
              d' = d\<lparr>doc_isActive := False, doc_revocationReason := Some reason\<rparr> \<and>
              findById k (License_docs db') = Some d' \<and>
              (\<forall>j. j \<noteq> k \<longrightarrow> findById j (License_docs db') = findById j (License_docs db)) \<and>
              list_all2 (\<lambda>x y. y = x \<or> (x = d \<and> y = d')) (License_docs db) (License_docs db'))"
proof -
  have c: "licenses s' i = (licenses s i)\<lparr>isActive := False\<rparr> \<and>
         (\<forall>j. j \<noteq> i \<longrightarrow> licenses s' j = licenses s j) \<and>
         licenseCounter s' = licenseCounter s \<and> modelLicenses s' = modelLicenses s \<and>
         userLicenses s' = userLicenses s"
    using revokeLicense_Inr(1)[OF assms(1)] by simp
  obtain d where d: "findById k (License_docs db) = Some d"
      "d' = d\<lparr>doc_isActive := False, doc_revocationReason := Some reason\<rparr>"
      "db' = db\<lparr>License_docs := save d' (License_docs db)\<rparr>"
    using route_revoke_Status200[OF assms(2)] by blast
  have i: "doc_id d' = k"
    using findById_Some_id[OF d(1)] d(2) by simp
  have "findById k (License_docs db') = Some d'"
    using d(1,3) i by (simp add: findById_save)
  moreover have "\<forall>j. j \<noteq> k \<longrightarrow> findById j (License_docs db') = findById j (License_docs db)"
    using d(3) i by (simp add: findById_save)
  moreover have "list_all2 (\<lambda>x y. y = x \<or> (x = d \<and> y = d')) (License_docs db) (License_docs db')"
    using save_list_all2[of d' "License_docs db" d] d(1,3) i by simp
  ultimately show ?thesis
    using c d(1,2) by blast
qed

theorem revoke_frame_witness:
  "licenses (run [example_tx 2 1000 (IssueLicense 1 3 Commercial InferenceOnly 3600 5),
                  example_tx 2 1001 (RevokeLicense 1)] (fresh 1)) 1 =
     (licenses (run [example_tx 2 1000 (IssueLicense 1 3 Commercial InferenceOnly 3600 5)]
        (fresh 1)) 1)\<lparr>isActive := False\<rparr> \<and>
   licenseCounter (run [example_tx 2 1000 (IssueLicense 1 3 Commercial InferenceOnly 3600 5),
                  example_tx 2 1001 (RevokeLicense 1)] (fresh 1)) =
     licenseCounter (run [example_tx 2 1000 (IssueLicense 1 3 Commercial InferenceOnly 3600 5)]
        (fresh 1)) \<and>
   findById 1 (License_docs (snd (route_revoke (Some owner_user) 1 ''policy violation'' example_db)))
     = Some (example_doc\<lparr>doc_isActive := False, doc_revocationReason := Some ''policy violation''\<rparr>)"
proof -
  let ?s = "run [example_tx 2 1000 (IssueLicense 1 3 Commercial InferenceOnly 3600 5)] (fresh 1)"
  let ?d = "example_doc\<lparr>doc_isActive := False, doc_revocationReason := Some ''policy violation''\<rparr>"
  have 1: "revokeLicense example_registry 2 1 ?s =
      Inr (run [example_tx 2 1000 (IssueLicense 1 3 Commercial InferenceOnly 3600 5),
                example_tx 2 1001 (RevokeLicense 1)] (fresh 1))"
    by (simp add: contract_defs)
  have 2: "route_revoke (Some owner_user) 1 ''policy violation'' example_db =
      (Status200 ?d, snd (route_revoke (Some owner_user) 1 ''policy violation'' example_db))"
    by (simp add: backend_defs)
  have 3: "findById 1 (License_docs example_db) = Some example_doc"
    by (simp add: backend_defs)
  show ?thesis
    using revoke_frame[OF 1 2] 3 by auto
qed

text \<open>
  Claim C6. The contract refuses to revoke an inactive license ("License already
  inactive") but records no reason; the backend records the reason, but neither its
  \<open>revoke\<close> method nor the route tests \<open>isActive\<close>. At the input below the license was
  revoked for a policy violation; a second revoke is answered 200 and replaces the
  recorded reason, where the contract reverts.
\<close>

theorem revoke_route_accepts_inactive_license:
  "route_revoke (Some owner_user) 1 ''second reason''
     (snd (route_revoke (Some owner_user) 1 ''policy violation'' example_db)) =
     (Status200 (example_doc\<lparr>doc_isActive := False, doc_revocationReason := Some ''second reason''\<rparr>),
      example_db\<lparr>License_docs :=
        [example_doc\<lparr>doc_isActive := False, doc_revocationReason := Some ''second reason''\<rparr>]\<rparr>) \<and>
   findById 1 (License_docs (snd (route_revoke (Some owner_user) 1 ''policy violation'' example_db))) =
     Some (example_doc\<lparr>doc_isActive := False, doc_revocationReason := Some ''policy violation''\<rparr>) \<and>
   execute example_registry 2 1002 (RevokeLicense 1)
     (run [example_tx 2 1000 (IssueLicense 1 3 Commercial InferenceOnly 3600 0),
           example_tx 2 1001 (RevokeLicense 1)] (fresh 1)) =
     (Reverted (Revert ''License already inactive''),
      run [example_tx 2 1000 (IssueLicense 1 3 Commercial InferenceOnly 3600 0),
           example_tx 2 1001 (RevokeLicense 1)] (fresh 1))"
  by (simp add: contract_defs backend_defs)

section \<open>Validation\<close>

lemma validateLicense_reachable:
  "validateLicense now i user requiredAccess (run txs (fresh deployer)) \<longleftrightarrow>
     issued (run txs (fresh deployer)) i \<and>
     isActive (licenses (run txs (fresh deployer)) i) \<and>
     licensee (licenses (run txs (fresh deployer)) i) = user \<and>
     now < expiresAt (licenses (run txs (fresh deployer)) i) \<and>
     (usageLimit (licenses (run txs (fresh deployer)) i) = 0 \<or>
      usageCount (licenses (run txs (fresh deployer)) i)
        < usageLimit (licenses (run txs (fresh deployer)) i)) \<and>
     uint_AccessLevel requiredAccess
       \<le> uint_AccessLevel (accessLevel (licenses (run txs (fresh deployer)) i))"
  by (rule validateLicense_iff_issued) (intro unissued_blank_run unissued_blank_fresh)

lemma indexOf_accessLevels: "indexOf accessLevels a = int (uint_AccessLevel a)"
  by (cases a) (simp_all add: accessLevels_def)

lemma LicenseSchema_isValid_iff:
  "LicenseSchema_isValid now d \<longleftrightarrow>
     doc_isActive d \<and> now \<le> doc_expiresAt d \<and>
     (doc_usageLimit d \<le> 0 \<or> doc_usageCount d < doc_usageLimit d)"
  by (auto simp: LicenseSchema_isValid_def)

lemma route_validate_iff:
  "(\<exists>d. fst (route_validate (Some u) l r now db) = Status200_isValid_true d) \<longleftrightarrow>
     (\<exists>d. findOne_licenseId l (License_docs db) = Some d \<and>
        doc_isActive d \<and> doc_licensee d = user_id u \<and> now \<le> doc_expiresAt d \<and>
        (doc_usageLimit d \<le> 0 \<or> doc_usageCount d < doc_usageLimit d) \<and>
        uint_AccessLevel r \<le> uint_AccessLevel (doc_accessLevel d))"
  by (auto simp: route_validate_def LicenseSchema_isValid_iff indexOf_accessLevels
      split: option.splits)

text \<open>
  Claim C1. The contract's \<open>validateLicense\<close> is the claim's conjunction, with
  \<open>block.timestamp < expiresAt\<close>, and is false for an id that was never issued
  (\<open>validateLicense_reachable\<close>). The backend's validate route changes nothing and
  answers \<open>isValid: false\<close> for an unknown license, but it takes its expiry test from
  \<open>isValid()\<close>, which is \<open>now > expiresAt\<close>: at the instant \<open>now = expiresAt\<close> it answers
  \<open>isValid: true\<close>, where the contract returns false.
\<close>

theorem validate_route_at_expiry_instant:
  "doc_expiresAt example_doc = 5000 \<and>
   route_validate (Some licensee_user) ''LIC-1000-7'' ReadOnly 5000 example_db =
     (Status200_isValid_true example_doc, example_db) \<and>
   expiresAt (licenses (run [example_tx 2 1000 (IssueLicense 1 3 Commercial InferenceOnly 3600 0)]
     (fresh 1)) 1) = 4600 \<and>
   validateLicense 4599 1 3 ReadOnly
     (run [example_tx 2 1000 (IssueLicense 1 3 Commercial InferenceOnly 3600 0)] (fresh 1)) \<and>
   \<not> validateLicense 4600 1 3 ReadOnly
     (run [example_tx 2 1000 (IssueLicense 1 3 Commercial InferenceOnly 3600 0)] (fresh 1))"
  by (simp add: contract_defs backend_defs validateLicense_def word_less_nat_alt)

text \<open>
  Claim C5. \<open>isValid()\<close> of the backend's model returns true at \<open>now = expiresAt\<close> (and
  false one millisecond later), where the contract's \<open>validateLicense\<close> returns false
  from \<open>now = expiresAt\<close> on (\<open>validateLicense_expired\<close>).
\<close>

theorem isValid_at_expiry_instant:
  "LicenseSchema_isValid (doc_expiresAt example_doc) example_doc \<and>
   \<not> LicenseSchema_isValid (doc_expiresAt example_doc + 1) example_doc"
  by (simp add: backend_defs)

section \<open>Recording usage at and after the expiry\<close>

lemma route_usage_rejects:
  assumes "findById k (License_docs db) = Some d"
    and "role u = ''admin'' \<or> doc_licensee d = user_id u" and "opn \<noteq> []"
    and "\<not> doc_isActive d \<or> doc_expiresAt d < now"
  shows "route_usage (Some u) k opn det now now' db = (Status400 ''License is not valid'', db)"
  using assms by (auto simp: route_usage_def LicenseSchema_isValid_def)

text \<open>
  Claim C8. In the contract a license admin's \<open>recordUsage\<close> on an inactive license
  reverts with "License not active" and on an active one with \<open>now \<ge> expiresAt\<close> with
  "License expired" (\<open>recordUsage_not_active\<close>, \<open>recordUsage_expired\<close>). The backend's
  usage route answers 400 "License is not valid" for an inactive license and for
  \<open>now > expiresAt\<close> (\<open>route_usage_rejects\<close>), but at the instant \<open>now = expiresAt\<close> it
  records the use and answers 200.
\<close>

theorem usage_route_at_expiry_instant:
  "doc_expiresAt example_doc = 5000 \<and>
   route_usage (Some licensee_user) 1 ''inference'' ''{}'' 5000 5000 example_db =
     (Status200 (example_doc\<lparr>doc_usageCount := 1,
        doc_usageHistory := [\<lparr>timestamp = 5000, operation = ''inference'', details = ''{}''\<rparr>]\<rparr>),
      example_db\<lparr>License_docs := [example_doc\<lparr>doc_usageCount := 1,
        doc_usageHistory := [\<lparr>timestamp = 5000, operation = ''inference'', details = ''{}''\<rparr>]\<rparr>]\<rparr>) \<and>
   recordUsage 1 4599 1 1
     (run [example_tx 2 1000 (IssueLicense 1 3 Commercial InferenceOnly 3600 0)] (fresh 1)) =
     Inr (run [example_tx 2 1000 (IssueLicense 1 3 Commercial InferenceOnly 3600 0),
               example_tx 1 4599 (RecordUsage 1 1)] (fresh 1)) \<and>
   recordUsage 1 4600 1 1
     (run [example_tx 2 1000 (IssueLicense 1 3 Commercial InferenceOnly 3600 0)] (fresh 1)) =
     Inl (Revert ''License expired'')"
  by (simp add: contract_defs backend_defs word_less_nat_alt)

end
